theory Spec2Isabelle
  imports Complex_Main
begin

section \<open>Gravitational and magnetic fields of rectangular prisms\<close>

text \<open>
  A shallow embedding of \<^verbatim>\<open>gravmag/models/rectangular_prism.py\<close> (the array version,
  built on numpy broadcasting) and \<^verbatim>\<open>gravmag/models/rectangular_prism_numba.py\<close> (the
  compiled version, one scalar loop per point and prism).

  Numbers are real numbers: every statement below is about the formulas that the two files
  evaluate, in exact arithmetic. The rounding of double precision is outside the model,
  except for the scaling step of \<^verbatim>\<open>grav\<close>, which is modelled a second time on
  double-precision numbers.
  A numpy array of one dimension is a list, an array of two dimensions a list of rows.
\<close>

subsection \<open>Errors and constants\<close>

text \<open>
  \<^verbatim>\<open>ValueError\<close> carries the message that the source formats. \<^verbatim>\<open>ShapeMismatch\<close> is the
  failure of the validation functions of the module \<^verbatim>\<open>check\<close>. \<^verbatim>\<open>TypingError\<close> is the
  failure of a compiled function on an argument that it cannot index.
\<close>

datatype error = ValueError string | ShapeMismatch | TypingError

text \<open>
  The module \<^verbatim>\<open>constants\<close> is a parameter of the model: the two files only multiply by its
  entries.
\<close>

record constants =
  GRAVITATIONAL_CONST :: real
  SI2MGAL :: real
  SI2EOTVOS :: real
  CM :: real
  T2NT :: real
  T2MT :: real

subsection \<open>Safe transcendental functions\<close>

text \<open>
  The two-argument arctangent of the mathematical library, with values in the interval
  from \<open>- pi\<close> (excluded) to \<open>pi\<close> (included); the first argument is the numerator.
\<close>

definition atan2 :: "real \<Rightarrow> real \<Rightarrow> real" where
  "atan2 y x =
     (if 0 < x then arctan (y / x)
      else if x < 0 \<and> 0 \<le> y then arctan (y / x) + pi
      else if x < 0 \<and> y < 0 then arctan (y / x) - pi
      else if 0 < y then pi / 2
      else if y < 0 then - (pi / 2)
      else 0)"

text \<open>
  Modelled from the spec: \<^verbatim>\<open>utils.safe_log\<close> and \<^verbatim>\<open>utils.safe_log_entrywise\<close> are not
  among the source files. The natural logarithm of the argument, and 0 when the argument
  is not positive.
\<close>

definition safe_log :: "real \<Rightarrow> real" where
  "safe_log t = (if t \<le> 0 then 0 else ln t)"

text \<open>
  Modelled from the spec: \<^verbatim>\<open>utils.safe_atan2\<close> and \<^verbatim>\<open>utils.safe_atan2_entrywise\<close> are not
  among the source files. The two-argument arctangent of numerator and denominator, and 0
  when the denominator is 0, whatever the numerator.
\<close>

definition safe_atan2 :: "real \<Rightarrow> real \<Rightarrow> real" where
  "safe_atan2 numerator denominator =
     (if denominator = 0 then 0 else atan2 numerator denominator)"

subsection \<open>Kernels of the array version\<close>

text \<open>
  Each kernel of \<^verbatim>\<open>rectangular_prism.py\<close> takes the relative coordinates and the distance
  \<open>R\<close>, which its caller computes. On arrays every operation acts entry by entry, so a
  kernel is modelled on one entry and lifted to matrices by \<open>ew4\<close> below.
\<close>

definition kernel_potential_grav :: "real \<Rightarrow> real \<Rightarrow> real \<Rightarrow> real \<Rightarrow> real" where
  "kernel_potential_grav X Y Z R =
     X * Y * safe_log (Z + R)
     + X * Z * safe_log (Y + R)
     + Y * Z * safe_log (X + R)
     - 0.5 * Y ^ 2 * safe_atan2 (Z * X) (Y * R)
     - 0.5 * X ^ 2 * safe_atan2 (Z * Y) (X * R)
     - 0.5 * Z ^ 2 * safe_atan2 (Y * X) (Z * R)"

definition kernel_x :: "real \<Rightarrow> real \<Rightarrow> real \<Rightarrow> real \<Rightarrow> real" where
  "kernel_x X Y Z R =
     - (Y * safe_log (Z + R)
        + Z * safe_log (Y + R)
        - X * safe_atan2 (Y * Z) (X * R))"

definition kernel_y :: "real \<Rightarrow> real \<Rightarrow> real \<Rightarrow> real \<Rightarrow> real" where
  "kernel_y X Y Z R =
     - (X * safe_log (Z + R)
        + Z * safe_log (X + R)
        - Y * safe_atan2 (X * Z) (Y * R))"

definition kernel_z :: "real \<Rightarrow> real \<Rightarrow> real \<Rightarrow> real \<Rightarrow> real" where
  "kernel_z X Y Z R =
     - (Y * safe_log (X + R)
        + X * safe_log (Y + R)
        - Z * safe_atan2 (Y * X) (Z * R))"

definition kernel_xx :: "real \<Rightarrow> real \<Rightarrow> real \<Rightarrow> real \<Rightarrow> real" where
  "kernel_xx X Y Z R = - safe_atan2 (Y * Z) (X * R)"

definition kernel_xy :: "real \<Rightarrow> real \<Rightarrow> real \<Rightarrow> real \<Rightarrow> real" where
  "kernel_xy X Y Z R = safe_log (Z + R)"

definition kernel_xz :: "real \<Rightarrow> real \<Rightarrow> real \<Rightarrow> real \<Rightarrow> real" where
  "kernel_xz X Y Z R = safe_log (Y + R)"

definition kernel_yy :: "real \<Rightarrow> real \<Rightarrow> real \<Rightarrow> real \<Rightarrow> real" where
  "kernel_yy X Y Z R = - safe_atan2 (X * Z) (Y * R)"

definition kernel_yz :: "real \<Rightarrow> real \<Rightarrow> real \<Rightarrow> real \<Rightarrow> real" where
  "kernel_yz X Y Z R = safe_log (X + R)"

definition kernel_zz :: "real \<Rightarrow> real \<Rightarrow> real \<Rightarrow> real \<Rightarrow> real" where
  "kernel_zz X Y Z R = - safe_atan2 (Y * X) (Z * R)"

subsection \<open>Kernels of the compiled version\<close>

text \<open>
  Each kernel of \<^verbatim>\<open>rectangular_prism_numba.py\<close> takes the relative coordinates only and
  computes the distance itself.
\<close>

definition kernel_inverse_r :: "real \<Rightarrow> real \<Rightarrow> real \<Rightarrow> real" where
  "kernel_inverse_r X Y Z =
     (let R = sqrt (X ^ 2 + Y ^ 2 + Z ^ 2) in
      Y * X * safe_log (Z + R)
      + X * Z * safe_log (Y + R)
      + Y * Z * safe_log (X + R)
      - 0.5 * Y ^ 2 * safe_atan2 (Z * X) (Y * R)
      - 0.5 * X ^ 2 * safe_atan2 (Z * Y) (X * R)
      - 0.5 * Z ^ 2 * safe_atan2 (Y * X) (Z * R))"

definition kernel_dz :: "real \<Rightarrow> real \<Rightarrow> real \<Rightarrow> real" where
  "kernel_dz X Y Z =
     (let R = sqrt (X ^ 2 + Y ^ 2 + Z ^ 2) in
      - (Y * safe_log (X + R)
         + X * safe_log (Y + R)
         - Z * safe_atan2 (Y * X) (Z * R)))"

definition kernel_dy :: "real \<Rightarrow> real \<Rightarrow> real \<Rightarrow> real" where
  "kernel_dy X Y Z =
     (let R = sqrt (X ^ 2 + Y ^ 2 + Z ^ 2) in
      - (X * safe_log (Z + R)
         + Z * safe_log (X + R)
         - Y * safe_atan2 (X * Z) (Y * R)))"

definition kernel_dx :: "real \<Rightarrow> real \<Rightarrow> real \<Rightarrow> real" where
  "kernel_dx X Y Z =
     (let R = sqrt (X ^ 2 + Y ^ 2 + Z ^ 2) in
      - (Y * safe_log (Z + R)
         + Z * safe_log (Y + R)
         - X * safe_atan2 (Y * Z) (X * R)))"

definition kernel_dzz :: "real \<Rightarrow> real \<Rightarrow> real \<Rightarrow> real" where
  "kernel_dzz X Y Z =
     (let R = sqrt (X ^ 2 + Y ^ 2 + Z ^ 2) in - safe_atan2 (Y * X) (Z * R))"

definition kernel_dyz :: "real \<Rightarrow> real \<Rightarrow> real \<Rightarrow> real" where
  "kernel_dyz X Y Z =
     (let R = sqrt (X ^ 2 + Y ^ 2 + Z ^ 2) in safe_log (X + R))"

definition kernel_dxz :: "real \<Rightarrow> real \<Rightarrow> real \<Rightarrow> real" where
  "kernel_dxz X Y Z =
     (let R = sqrt (X ^ 2 + Y ^ 2 + Z ^ 2) in safe_log (Y + R))"

definition kernel_dyy :: "real \<Rightarrow> real \<Rightarrow> real \<Rightarrow> real" where
  "kernel_dyy X Y Z =
     (let R = sqrt (X ^ 2 + Y ^ 2 + Z ^ 2) in - safe_atan2 (X * Z) (Y * R))"

definition kernel_dxy :: "real \<Rightarrow> real \<Rightarrow> real \<Rightarrow> real" where
  "kernel_dxy X Y Z =
     (let R = sqrt (X ^ 2 + Y ^ 2 + Z ^ 2) in safe_log (Z + R))"

definition kernel_dxx :: "real \<Rightarrow> real \<Rightarrow> real \<Rightarrow> real" where
  "kernel_dxx X Y Z =
     (let R = sqrt (X ^ 2 + Y ^ 2 + Z ^ 2) in - safe_atan2 (Y * Z) (X * R))"

subsection \<open>The kernel table of the specification\<close>

text \<open>
  The formulas as the specification writes them, as functions of \<open>X\<close>, \<open>Y\<close>, \<open>Z\<close> and \<open>R\<close>,
  to compare with the kernels of the two files. The field names are those of the
  specification.
\<close>

datatype field_kind = Potential | Fx | Fy | Fz | Fxx | Fxy | Fxz | Fyy | Fyz | Fzz

fun spec_kernel :: "field_kind \<Rightarrow> real \<Rightarrow> real \<Rightarrow> real \<Rightarrow> real \<Rightarrow> real" where
  "spec_kernel Potential X Y Z R =
     X * Y * safe_log (Z + R) + X * Z * safe_log (Y + R) + Y * Z * safe_log (X + R)
     - 0.5 * Y ^ 2 * safe_atan2 (Z * X) (Y * R) - 0.5 * X ^ 2 * safe_atan2 (Z * Y) (X * R)
     - 0.5 * Z ^ 2 * safe_atan2 (Y * X) (Z * R)"
| "spec_kernel Fx X Y Z R =
     - (Y * safe_log (Z + R) + Z * safe_log (Y + R) - X * safe_atan2 (Y * Z) (X * R))"
| "spec_kernel Fy X Y Z R =
     - (X * safe_log (Z + R) + Z * safe_log (X + R) - Y * safe_atan2 (X * Z) (Y * R))"
| "spec_kernel Fz X Y Z R =
     - (Y * safe_log (X + R) + X * safe_log (Y + R) - Z * safe_atan2 (Y * X) (Z * R))"
| "spec_kernel Fxx X Y Z R = - safe_atan2 (Y * Z) (X * R)"
| "spec_kernel Fxy X Y Z R = safe_log (Z + R)"
| "spec_kernel Fxz X Y Z R = safe_log (Y + R)"
| "spec_kernel Fyy X Y Z R = - safe_atan2 (X * Z) (Y * R)"
| "spec_kernel Fyz X Y Z R = safe_log (X + R)"
| "spec_kernel Fzz X Y Z R = - safe_atan2 (Y * X) (Z * R)"

subsection \<open>Inputs of the array version\<close>

type_synonym vector = "real list"
type_synonym matrix = "real list list"

text \<open>
  The dictionary of coordinates, with its keys \<^verbatim>\<open>'x'\<close>, \<^verbatim>\<open>'y'\<close> and \<^verbatim>\<open>'z'\<close>, and the
  dictionary of prisms, with its keys \<^verbatim>\<open>'x1'\<close> to \<^verbatim>\<open>'z2'\<close>: one array for each key.
\<close>

record coordinates =
  coord_x :: vector
  coord_y :: vector
  coord_z :: vector

record prisms =
  x1 :: vector
  x2 :: vector
  y1 :: vector
  y2 :: vector
  z1 :: vector
  z2 :: vector

text \<open>
  Modelled from the spec: the module \<^verbatim>\<open>check\<close> is not among the source files. Its functions
  return the number of points and the number of prisms, and they fail when the arrays of a
  dictionary, or the array of a source property, do not have the expected length.
\<close>

definition are_coordinates :: "coordinates \<Rightarrow> error + nat" where
  "are_coordinates coordinates =
     (if length (coord_y coordinates) = length (coord_x coordinates)
         \<and> length (coord_z coordinates) = length (coord_x coordinates)
      then Inr (length (coord_x coordinates)) else Inl ShapeMismatch)"

definition are_rectangular_prisms :: "prisms \<Rightarrow> error + nat" where
  "are_rectangular_prisms prisms =
     (if length (x2 prisms) = length (x1 prisms) \<and> length (y1 prisms) = length (x1 prisms)
         \<and> length (y2 prisms) = length (x1 prisms) \<and> length (z1 prisms) = length (x1 prisms)
         \<and> length (z2 prisms) = length (x1 prisms)
      then Inr (length (x1 prisms)) else Inl ShapeMismatch)"

definition is_array :: "vector \<Rightarrow> nat \<Rightarrow> error + unit" where
  "is_array v P = (if length v = P then Inr () else Inl ShapeMismatch)"

subsection \<open>Arrays of two dimensions\<close>

definition zeros :: "nat \<Rightarrow> nat \<Rightarrow> matrix" where
  "zeros D P = replicate D (replicate P 0)"

text \<open>\<^verbatim>\<open>u[:, np.newaxis] + v[np.newaxis, :]\<close>: the entry of row \<open>d\<close> and column \<open>p\<close> is \<open>u[d] + v[p]\<close>.\<close>

definition outer_add :: "vector \<Rightarrow> vector \<Rightarrow> matrix" where
  "outer_add u v = map (\<lambda>a. map (\<lambda>b. a + b) v) u"

definition map4 :: "('a \<Rightarrow> 'b \<Rightarrow> 'c \<Rightarrow> 'd \<Rightarrow> 'e) \<Rightarrow> 'a list \<Rightarrow> 'b list \<Rightarrow> 'c list \<Rightarrow> 'd list \<Rightarrow> 'e list" where
  "map4 f as bs cs ds = map (\<lambda>(a, b, c, d). f a b c d) (zip as (zip bs (zip cs ds)))"

text \<open>A function of four numbers applied entry by entry to four matrices of one shape.\<close>

definition ew4 :: "(real \<Rightarrow> real \<Rightarrow> real \<Rightarrow> real \<Rightarrow> real) \<Rightarrow> matrix \<Rightarrow> matrix \<Rightarrow> matrix \<Rightarrow> matrix \<Rightarrow> matrix" where
  "ew4 f A B C E = map4 (map4 f) A B C E"

definition mat_add :: "matrix \<Rightarrow> matrix \<Rightarrow> matrix" where
  "mat_add A B = map2 (map2 (+)) A B"

definition mat_scale :: "real \<Rightarrow> matrix \<Rightarrow> matrix" where
  "mat_scale s A = map (map ((*) s)) A"

text \<open>
  Modelled from the spec: \<^verbatim>\<open>inverse_distance.sedm\<close> is not among the source files. The
  matrix of the squared Euclidean distances between the data points (rows) and the source
  points (columns).
\<close>

definition sedm :: "coordinates \<Rightarrow> coordinates \<Rightarrow> matrix" where
  "sedm data_points source_points =
     map (\<lambda>(px, py, pz).
            map (\<lambda>(sx, sy, sz). (px - sx) ^ 2 + (py - sy) ^ 2 + (pz - sz) ^ 2)
              (zip (coord_x source_points)
                 (zip (coord_y source_points) (coord_z source_points))))
       (zip (coord_x data_points) (zip (coord_y data_points) (coord_z data_points)))"

subsection \<open>The corner loop of the array version\<close>

text \<open>
  The body of the three nested loops of \<^verbatim>\<open>iterate_over_vertices\<close>, for the corner
  \<open>(i, j, k)\<close>. The key \<^verbatim>\<open>"x" + "{}".format(i)\<close> selects \<open>x1\<close> when \<open>i\<close> is 1 and \<open>x2\<close> when
  \<open>i\<close> is 2, and likewise for \<open>y\<close> and \<open>z\<close>.
\<close>

definition vertex_contribution ::
  "coordinates \<Rightarrow> prisms \<Rightarrow> (real \<Rightarrow> real \<Rightarrow> real \<Rightarrow> real \<Rightarrow> real) \<Rightarrow> nat \<Rightarrow> nat \<Rightarrow> nat \<Rightarrow> matrix \<Rightarrow> matrix" where
  "vertex_contribution coordinates prisms kernel_fn i j k predicted_field =
     (let sign = (- 1) ^ (i + j + k);
          vertex = \<lparr>coord_x = (if i = 1 then x1 prisms else x2 prisms),
                    coord_y = (if j = 1 then y1 prisms else y2 prisms),
                    coord_z = (if k = 1 then z1 prisms else z2 prisms)\<rparr>;
          R = map (map sqrt) (sedm coordinates vertex);
          X = outer_add (map uminus (coord_x coordinates)) (coord_x vertex);
          Y = outer_add (map uminus (coord_y coordinates)) (coord_y vertex);
          Z = outer_add (map uminus (coord_z coordinates)) (coord_z vertex)
      in mat_add predicted_field (mat_scale sign (ew4 kernel_fn X Y Z R)))"

text \<open>The matrix \<^verbatim>\<open>predicted_field\<close> after the three loops, before it is weighted.\<close>

definition vertices_loop ::
  "coordinates \<Rightarrow> prisms \<Rightarrow> (real \<Rightarrow> real \<Rightarrow> real \<Rightarrow> real \<Rightarrow> real) \<Rightarrow> matrix" where
  "vertices_loop coordinates prisms kernel_fn =
     fold (\<lambda>i. fold (\<lambda>j. fold (\<lambda>k. vertex_contribution coordinates prisms kernel_fn i j k)
                          [1, 2]) [1, 2]) [1, 2]
       (zeros (length (coord_x coordinates)) (length (x1 prisms)))"

text \<open>\<^verbatim>\<open>np.sum(a=predicted_field * sigma[np.newaxis, :], axis=1)\<close>: each row is weighted and summed.\<close>

definition iterate_over_vertices ::
  "coordinates \<Rightarrow> prisms \<Rightarrow> vector \<Rightarrow> (real \<Rightarrow> real \<Rightarrow> real \<Rightarrow> real \<Rightarrow> real) \<Rightarrow> vector" where
  "iterate_over_vertices coordinates prisms sigma kernel_fn =
     (let predicted_field = vertices_loop coordinates prisms kernel_fn
      in map (\<lambda>row. sum_list (map2 (*) row sigma)) predicted_field)"

subsection \<open>The entry points of the array version\<close>

text \<open>The dictionary from field names to kernels, in \<^verbatim>\<open>grav\<close>.\<close>

definition kernels_grav :: "string \<rightharpoonup> (real \<Rightarrow> real \<Rightarrow> real \<Rightarrow> real \<Rightarrow> real)" where
  "kernels_grav = map_of
     [(''potential'', kernel_potential_grav),
      (''x'', kernel_x), (''y'', kernel_y), (''z'', kernel_z),
      (''xx'', kernel_xx), (''xy'', kernel_xy), (''xz'', kernel_xz),
      (''yy'', kernel_yy), (''yz'', kernel_yz), (''zz'', kernel_zz)]"

text \<open>\<^verbatim>\<open>result *= c\<close> on an array.\<close>

definition times_scalar :: "vector \<Rightarrow> real \<Rightarrow> vector" where
  "times_scalar result c = map (\<lambda>v. v * c) result"

text \<open>The scaling at the end of \<^verbatim>\<open>grav\<close>, the same lines in both files.\<close>

definition scale_grav :: "constants \<Rightarrow> string \<Rightarrow> vector \<Rightarrow> vector" where
  "scale_grav cts field result =
     (let result = times_scalar result (GRAVITATIONAL_CONST cts);
          result = (if field \<in> set [''x'', ''y'', ''z'']
                    then times_scalar result (SI2MGAL cts) else result);
          result = (if field \<in> set [''xx'', ''xy'', ''xz'', ''yy'', ''yz'', ''zz'']
                    then times_scalar result (SI2EOTVOS cts) else result)
      in result)"

definition grav ::
  "constants \<Rightarrow> coordinates \<Rightarrow> prisms \<Rightarrow> vector \<Rightarrow> string \<Rightarrow> bool \<Rightarrow> error + vector" where
  "grav cts coordinates prisms density field scale =
     (case are_coordinates coordinates of Inl e \<Rightarrow> Inl e | Inr D \<Rightarrow>
     (case are_rectangular_prisms prisms of Inl e \<Rightarrow> Inl e | Inr P \<Rightarrow>
     (case is_array density P of Inl e \<Rightarrow> Inl e | Inr u \<Rightarrow>
     (case kernels_grav field of
        None \<Rightarrow> Inl (ValueError (''Gravitational field '' @ field @ '' not recognized''))
      | Some kernel_fn \<Rightarrow>
          (let result = iterate_over_vertices coordinates prisms density kernel_fn
           in Inr (if scale then scale_grav cts field result else result))))))"

text \<open>
  The dictionary from field names to the three kernels of \<^verbatim>\<open>mag\<close>; the inner dictionary,
  with its keys \<^verbatim>\<open>'x'\<close>, \<^verbatim>\<open>'y'\<close> and \<^verbatim>\<open>'z'\<close>, is a triple.
\<close>

definition kernels_mag ::
  "string \<rightharpoonup> ((real \<Rightarrow> real \<Rightarrow> real \<Rightarrow> real \<Rightarrow> real) \<times> (real \<Rightarrow> real \<Rightarrow> real \<Rightarrow> real \<Rightarrow> real)
      \<times> (real \<Rightarrow> real \<Rightarrow> real \<Rightarrow> real \<Rightarrow> real))" where
  "kernels_mag = map_of
     [(''potential'', (kernel_x, kernel_y, kernel_z)),
      (''z'', (kernel_xz, kernel_yz, kernel_zz)),
      (''y'', (kernel_xy, kernel_yy, kernel_yz)),
      (''x'', (kernel_xx, kernel_xy, kernel_xz))]"

text \<open>The scaling at the end of \<^verbatim>\<open>mag\<close>, the same lines in both files.\<close>

definition scale_mag :: "constants \<Rightarrow> string \<Rightarrow> vector \<Rightarrow> vector" where
  "scale_mag cts field result =
     (let result = times_scalar result (CM cts);
          result = (if field \<in> set [''x'', ''y'', ''z'']
                    then times_scalar result (T2NT cts) else result);
          result = (if field = ''potential''
                    then times_scalar result (- T2MT cts) else result)
      in result)"

definition mag ::
  "constants \<Rightarrow> coordinates \<Rightarrow> prisms \<Rightarrow> vector \<Rightarrow> vector \<Rightarrow> vector \<Rightarrow> string \<Rightarrow> bool \<Rightarrow> error + vector" where
  "mag cts coordinates prisms mx my mz field scale =
     (case are_coordinates coordinates of Inl e \<Rightarrow> Inl e | Inr D \<Rightarrow>
     (case are_rectangular_prisms prisms of Inl e \<Rightarrow> Inl e | Inr P \<Rightarrow>
     (case is_array mx P of Inl e \<Rightarrow> Inl e | Inr u \<Rightarrow>
     (case is_array my P of Inl e \<Rightarrow> Inl e | Inr u \<Rightarrow>
     (case is_array mz P of Inl e \<Rightarrow> Inl e | Inr u \<Rightarrow>
     (case kernels_mag field of
        None \<Rightarrow> Inl (ValueError (''Magnetic field '' @ field @ '' not recognized''))
      | Some (kernel_of_x, kernel_of_y, kernel_of_z) \<Rightarrow>
          (let resultx = iterate_over_vertices coordinates prisms mx kernel_of_x;
               resulty = iterate_over_vertices coordinates prisms my kernel_of_y;
               resultz = iterate_over_vertices coordinates prisms mz kernel_of_z;
               result = map2 (+) (map2 (+) resultx resulty) resultz
           in Inr (if scale then scale_mag cts field result else result))))))))"

subsection \<open>The loops of the compiled version\<close>

text \<open>
  \<^verbatim>\<open>jit_grav\<close> and \<^verbatim>\<open>jit_mag\<close> index their inputs as arrays of two dimensions:
  \<^verbatim>\<open>coordinates[0, l]\<close>, \<^verbatim>\<open>coordinates[1, l]\<close> and \<^verbatim>\<open>coordinates[2, l]\<close> are the coordinates
  of point \<open>l\<close>, and \<^verbatim>\<open>prisms[p, 0]\<close> to \<^verbatim>\<open>prisms[p, 5]\<close> are \<open>x1\<close>, \<open>x2\<close>, \<open>y1\<close>, \<open>y2\<close>, \<open>z1\<close>,
  \<open>z2\<close> of prism \<open>p\<close>. The output array is updated in place; the model returns it.
  The body of the inner loop, for point \<open>l\<close> and prism \<open>p\<close>:
\<close>

definition jit_grav_body ::
  "matrix \<Rightarrow> matrix \<Rightarrow> vector \<Rightarrow> (real \<Rightarrow> real \<Rightarrow> real \<Rightarrow> real) \<Rightarrow> nat \<Rightarrow> nat \<Rightarrow> vector \<Rightarrow> vector" where
  "jit_grav_body coordinates prisms density field l p out =
     (let X1 = prisms ! p ! 0 - coordinates ! 0 ! l;
          X2 = prisms ! p ! 1 - coordinates ! 0 ! l;
          Y1 = prisms ! p ! 2 - coordinates ! 1 ! l;
          Y2 = prisms ! p ! 3 - coordinates ! 1 ! l;
          Z1 = prisms ! p ! 4 - coordinates ! 2 ! l;
          Z2 = prisms ! p ! 5 - coordinates ! 2 ! l
      in out[l := out ! l + density ! p * (
                   field X2 Y2 Z2
                   - field X2 Y2 Z1
                   - field X1 Y2 Z2
                   + field X1 Y2 Z1
                   - field X2 Y1 Z2
                   + field X2 Y1 Z1
                   + field X1 Y1 Z2
                   - field X1 Y1 Z1)])"

definition jit_grav ::
  "matrix \<Rightarrow> matrix \<Rightarrow> vector \<Rightarrow> (real \<Rightarrow> real \<Rightarrow> real \<Rightarrow> real) \<Rightarrow> vector \<Rightarrow> vector" where
  "jit_grav coordinates prisms density field out =
     fold (\<lambda>l. fold (\<lambda>p. jit_grav_body coordinates prisms density field l p)
                  [0..<length prisms])
       [0..<length (coordinates ! 0)] out"

definition jit_mag_body ::
  "matrix \<Rightarrow> matrix \<Rightarrow> vector \<Rightarrow> vector \<Rightarrow> vector \<Rightarrow> (real \<Rightarrow> real \<Rightarrow> real \<Rightarrow> real)
     \<Rightarrow> (real \<Rightarrow> real \<Rightarrow> real \<Rightarrow> real) \<Rightarrow> (real \<Rightarrow> real \<Rightarrow> real \<Rightarrow> real) \<Rightarrow> nat \<Rightarrow> nat \<Rightarrow> vector \<Rightarrow> vector" where
  "jit_mag_body coordinates prisms mx my mz fieldx fieldy fieldz l p out =
     (let X1 = prisms ! p ! 0 - coordinates ! 0 ! l;
          X2 = prisms ! p ! 1 - coordinates ! 0 ! l;
          Y1 = prisms ! p ! 2 - coordinates ! 1 ! l;
          Y2 = prisms ! p ! 3 - coordinates ! 1 ! l;
          Z1 = prisms ! p ! 4 - coordinates ! 2 ! l;
          Z2 = prisms ! p ! 5 - coordinates ! 2 ! l;
          out = out[l := out ! l + mx ! p * (
                   fieldx X2 Y2 Z2
                   - fieldx X2 Y2 Z1
                   - fieldx X1 Y2 Z2
                   + fieldx X1 Y2 Z1
                   - fieldx X2 Y1 Z2
                   + fieldx X2 Y1 Z1
                   + fieldx X1 Y1 Z2
                   - fieldx X1 Y1 Z1)];
          out = out[l := out ! l + my ! p * (
                   fieldy X2 Y2 Z2
                   - fieldy X2 Y2 Z1
                   - fieldy X1 Y2 Z2
                   + fieldy X1 Y2 Z1
                   - fieldy X2 Y1 Z2
                   + fieldy X2 Y1 Z1
                   + fieldy X1 Y1 Z2
                   - fieldy X1 Y1 Z1)];
          out = out[l := out ! l + mz ! p * (
                   fieldz X2 Y2 Z2
                   - fieldz X2 Y2 Z1
                   - fieldz X1 Y2 Z2
                   + fieldz X1 Y2 Z1
                   - fieldz X2 Y1 Z2
                   + fieldz X2 Y1 Z1
                   + fieldz X1 Y1 Z2
                   - fieldz X1 Y1 Z1)]
      in out)"

definition jit_mag ::
  "matrix \<Rightarrow> matrix \<Rightarrow> vector \<Rightarrow> vector \<Rightarrow> vector \<Rightarrow> (real \<Rightarrow> real \<Rightarrow> real \<Rightarrow> real)
     \<Rightarrow> (real \<Rightarrow> real \<Rightarrow> real \<Rightarrow> real) \<Rightarrow> (real \<Rightarrow> real \<Rightarrow> real \<Rightarrow> real) \<Rightarrow> vector \<Rightarrow> vector" where
  "jit_mag coordinates prisms mx my mz fieldx fieldy fieldz out =
     fold (\<lambda>l. fold (\<lambda>p. jit_mag_body coordinates prisms mx my mz fieldx fieldy fieldz l p)
                  [0..<length prisms])
       [0..<length (coordinates ! 0)] out"

subsection \<open>The entry points of the compiled version\<close>

text \<open>
  An argument of a compiled loop, as a caller hands it over: a dictionary of arrays, or an
  array of two dimensions.
\<close>

datatype 'd argument = Dictionary 'd | Array matrix

text \<open>
  \<^verbatim>\<open>@njit\<close>: the decorated loop runs on the arrays that it indexes with \<^verbatim>\<open>coordinates[0, l]\<close>
  and \<^verbatim>\<open>prisms[p, 0]\<close>. A dictionary has no such index and no attribute \<^verbatim>\<open>shape\<close>: the call
  raises \<^verbatim>\<open>TypingError\<close> and the loop does not run.
\<close>

definition njit :: "(matrix \<Rightarrow> matrix \<Rightarrow> 'a) \<Rightarrow> 'c argument \<Rightarrow> 'p argument \<Rightarrow> error + 'a" where
  "njit loop coordinates prisms =
     (case coordinates of
        Dictionary c \<Rightarrow> Inl TypingError
      | Array A \<Rightarrow>
          (case prisms of
             Dictionary ps \<Rightarrow> Inl TypingError
           | Array B \<Rightarrow> Inr (loop A B)))"

definition fields_grav :: "string \<rightharpoonup> (real \<Rightarrow> real \<Rightarrow> real \<Rightarrow> real)" where
  "fields_grav = map_of
     [(''potential'', kernel_inverse_r),
      (''x'', kernel_dx), (''y'', kernel_dy), (''z'', kernel_dz),
      (''xx'', kernel_dxx), (''xy'', kernel_dxy), (''xz'', kernel_dxz),
      (''yy'', kernel_dyy), (''yz'', kernel_dyz), (''zz'', kernel_dzz)]"

text \<open>
  \<^verbatim>\<open>grav\<close> of \<^verbatim>\<open>rectangular_prism_numba.py\<close>. Its arguments are the dictionaries of its
  documentation, validated by the same functions of \<^verbatim>\<open>check\<close> as in the array version, and
  then handed to \<^verbatim>\<open>jit_grav\<close> as they are.
\<close>

definition grav_numba ::
  "constants \<Rightarrow> coordinates \<Rightarrow> prisms \<Rightarrow> vector \<Rightarrow> string \<Rightarrow> bool \<Rightarrow> error + vector" where
  "grav_numba cts coordinates prisms density field scale =
     (case are_coordinates coordinates of Inl e \<Rightarrow> Inl e | Inr D \<Rightarrow>
     (case are_rectangular_prisms prisms of Inl e \<Rightarrow> Inl e | Inr P \<Rightarrow>
     (case is_array density P of Inl e \<Rightarrow> Inl e | Inr u \<Rightarrow>
     (case fields_grav field of
        None \<Rightarrow> Inl (ValueError (''Gravitational field '' @ field @ '' not recognized''))
      | Some field_fn \<Rightarrow>
          (let result = replicate D 0
           in (case njit (\<lambda>A B. jit_grav A B density field_fn result)
                      (Dictionary coordinates) (Dictionary prisms) of
                 Inl e \<Rightarrow> Inl e
               | Inr result \<Rightarrow> Inr (if scale then scale_grav cts field result else result)))))))"

definition fields_mag ::
  "string \<rightharpoonup> ((real \<Rightarrow> real \<Rightarrow> real \<Rightarrow> real) \<times> (real \<Rightarrow> real \<Rightarrow> real \<Rightarrow> real)
      \<times> (real \<Rightarrow> real \<Rightarrow> real \<Rightarrow> real))" where
  "fields_mag = map_of
     [(''potential'', (kernel_dx, kernel_dy, kernel_dz)),
      (''z'', (kernel_dxz, kernel_dyz, kernel_dzz)),
      (''y'', (kernel_dxy, kernel_dyy, kernel_dyz)),
      (''x'', (kernel_dxx, kernel_dxy, kernel_dxz))]"

text \<open>\<^verbatim>\<open>mag\<close> of \<^verbatim>\<open>rectangular_prism_numba.py\<close>, with the same arguments and the same validation.\<close>

definition mag_numba ::
  "constants \<Rightarrow> coordinates \<Rightarrow> prisms \<Rightarrow> vector \<Rightarrow> vector \<Rightarrow> vector \<Rightarrow> string \<Rightarrow> bool \<Rightarrow> error + vector" where
  "mag_numba cts coordinates prisms mx my mz field scale =
     (case are_coordinates coordinates of Inl e \<Rightarrow> Inl e | Inr D \<Rightarrow>
     (case are_rectangular_prisms prisms of Inl e \<Rightarrow> Inl e | Inr P \<Rightarrow>
     (case is_array mx P of Inl e \<Rightarrow> Inl e | Inr u \<Rightarrow>
     (case is_array my P of Inl e \<Rightarrow> Inl e | Inr u \<Rightarrow>
     (case is_array mz P of Inl e \<Rightarrow> Inl e | Inr u \<Rightarrow>
     (case fields_mag field of
        None \<Rightarrow> Inl (ValueError (''Magnetic field '' @ field @ '' not recognized''))
      | Some (fieldx, fieldy, fieldz) \<Rightarrow>
          (let result = replicate D 0
           in (case njit (\<lambda>A B. jit_mag A B mx my mz fieldx fieldy fieldz result)
                      (Dictionary coordinates) (Dictionary prisms) of
                 Inl e \<Rightarrow> Inl e
               | Inr result \<Rightarrow> Inr (if scale then scale_mag cts field result else result)))))))))"

subsection \<open>One input, two layouts\<close>

text \<open>
  The arrays of two dimensions that hold the same points and the same prisms as the two
  dictionaries: the row of prism \<open>p\<close> is \<open>x1\<close>, \<open>x2\<close>, \<open>y1\<close>, \<open>y2\<close>, \<open>z1\<close>, \<open>z2\<close>.
\<close>

definition coordinates_array :: "coordinates \<Rightarrow> matrix" where
  "coordinates_array c = [coord_x c, coord_y c, coord_z c]"

definition prisms_array :: "prisms \<Rightarrow> matrix" where
  "prisms_array ps =
     map (\<lambda>p. [x1 ps ! p, x2 ps ! p, y1 ps ! p, y2 ps ! p, z1 ps ! p, z2 ps ! p])
       [0..<length (x1 ps)]"

text \<open>Point \<open>d\<close> and prism \<open>p\<close> of the dictionaries.\<close>

definition point_at :: "coordinates \<Rightarrow> nat \<Rightarrow> real \<times> real \<times> real" where
  "point_at c d = (coord_x c ! d, coord_y c ! d, coord_z c ! d)"

definition prism_at :: "prisms \<Rightarrow> nat \<Rightarrow> real \<times> real \<times> real \<times> real \<times> real \<times> real" where
  "prism_at ps p = (x1 ps ! p, x2 ps ! p, y1 ps ! p, y2 ps ! p, z1 ps ! p, z2 ps ! p)"

text \<open>Valid input: \<open>D\<close> points, \<open>P\<close> prisms, every array of the expected length.\<close>

definition valid_input :: "coordinates \<Rightarrow> prisms \<Rightarrow> nat \<Rightarrow> nat \<Rightarrow> bool" where
  "valid_input c ps D P \<longleftrightarrow> are_coordinates c = Inr D \<and> are_rectangular_prisms ps = Inr P"

subsection \<open>The corner sum of the specification\<close>

text \<open>
  The signed sum over the eight corners as the specification writes it: the index triple
  \<open>(i, j, k)\<close> ranges over 1 and 2 in each place, the sign is \<open>(- 1) ^ (i + j + k)\<close>, the
  relative coordinates are corner minus point, and \<open>R\<close> is their Euclidean norm.
\<close>

definition corner_sum_spec ::
  "(real \<Rightarrow> real \<Rightarrow> real \<Rightarrow> real \<Rightarrow> real) \<Rightarrow> real \<times> real \<times> real
     \<Rightarrow> real \<times> real \<times> real \<times> real \<times> real \<times> real \<Rightarrow> real" where
  "corner_sum_spec K pt prism =
     (case pt of (px, py, pz) \<Rightarrow>
      case prism of (a1, a2, b1, b2, c1, c2) \<Rightarrow>
        (\<Sum>i\<in>{1, 2::nat}. \<Sum>j\<in>{1, 2::nat}. \<Sum>k\<in>{1, 2::nat}.
           (- 1) ^ (i + j + k) *
           (let Xi = (if i = 1 then a1 else a2) - px;
                Yj = (if j = 1 then b1 else b2) - py;
                Zk = (if k = 1 then c1 else c2) - pz
            in K Xi Yj Zk (sqrt (Xi ^ 2 + Yj ^ 2 + Zk ^ 2)))))"

subsection \<open>Tabulated matrices\<close>

text \<open>The matrix of \<open>D\<close> rows and \<open>P\<close> columns whose entry \<open>(d, p)\<close> is \<open>g d p\<close>.\<close>

definition tab :: "nat \<Rightarrow> nat \<Rightarrow> (nat \<Rightarrow> nat \<Rightarrow> real) \<Rightarrow> matrix" where
  "tab D P g = map (\<lambda>d. map (\<lambda>p. g d p) [0..<P]) [0..<D]"

subsection \<open>The specification of the field assembler\<close>

text \<open>
  The result at point \<open>d\<close> as the specification writes it: the sum over the prisms of the
  source property times the corner sum, here for any kernel \<open>K\<close>.
\<close>

definition assembled_spec ::
  "(real \<Rightarrow> real \<Rightarrow> real \<Rightarrow> real \<Rightarrow> real) \<Rightarrow> coordinates \<Rightarrow> prisms \<Rightarrow> vector \<Rightarrow> nat \<Rightarrow> real" where
  "assembled_spec K c ps sigma d =
     (\<Sum>p = 0..<length (x1 ps). sigma ! p * corner_sum_spec K (point_at c d) (prism_at ps p))"

text \<open>The field names of the specification, for gravity and for magnetics.\<close>

definition grav_fields :: "string list" where
  "grav_fields = [''potential'', ''x'', ''y'', ''z'', ''xx'', ''xy'', ''xz'', ''yy'', ''yz'', ''zz'']"

definition mag_fields :: "string list" where
  "mag_fields = [''potential'', ''x'', ''y'', ''z'']"

text \<open>The row of the kernel table that a gravity field name selects.\<close>

definition field_kind_of :: "string \<rightharpoonup> field_kind" where
  "field_kind_of = map_of
     [(''potential'', Potential), (''x'', Fx), (''y'', Fy), (''z'', Fz),
      (''xx'', Fxx), (''xy'', Fxy), (''xz'', Fxz), (''yy'', Fyy), (''yz'', Fyz), (''zz'', Fzz)]"

text \<open>
  The mapping of the specification for magnetics: the potential uses the kernels
  \<open>(x, y, z)\<close>, the component \<open>x\<close> uses \<open>(xx, xy, xz)\<close>, the component \<open>y\<close> uses
  \<open>(xy, yy, yz)\<close> and the component \<open>z\<close> uses \<open>(xz, yz, zz)\<close>.
\<close>

definition mag_kinds_of :: "string \<rightharpoonup> field_kind \<times> field_kind \<times> field_kind" where
  "mag_kinds_of = map_of
     [(''potential'', (Fx, Fy, Fz)), (''x'', (Fxx, Fxy, Fxz)),
      (''y'', (Fxy, Fyy, Fyz)), (''z'', (Fxz, Fyz, Fzz))]"

text \<open>A kernel of four arguments, with the distance computed from the relative coordinates.\<close>

definition with_distance :: "(real \<Rightarrow> real \<Rightarrow> real \<Rightarrow> real \<Rightarrow> real) \<Rightarrow> real \<Rightarrow> real \<Rightarrow> real \<Rightarrow> real" where
  "with_distance K X Y Z = K X Y Z (sqrt (X ^ 2 + Y ^ 2 + Z ^ 2))"

text \<open>
  The unscaled gravity output of the specification: at each point, the sum over the prisms
  of the density times the corner sum of the selected kernel.
\<close>

definition grav_spec :: "field_kind \<Rightarrow> coordinates \<Rightarrow> prisms \<Rightarrow> vector \<Rightarrow> vector" where
  "grav_spec k c ps density =
     map (\<lambda>d. \<Sum>p = 0..<length (x1 ps).
            density ! p * corner_sum_spec (spec_kernel k) (point_at c d) (prism_at ps p))
       [0..<length (coord_x c)]"

text \<open>
  The unscaled magnetic output of the specification: at each point, the sum over the prisms
  of the three magnetization components times the corner sums of the three kernels.
\<close>

definition mag_spec ::
  "field_kind \<times> field_kind \<times> field_kind \<Rightarrow> coordinates \<Rightarrow> prisms \<Rightarrow> vector \<Rightarrow> vector \<Rightarrow> vector \<Rightarrow> vector" where
  "mag_spec ks c ps mx my mz =
     (case ks of (kx, ky, kz) \<Rightarrow>
        map (\<lambda>d. \<Sum>p = 0..<length (x1 ps).
               (mx ! p * corner_sum_spec (spec_kernel kx) (point_at c d) (prism_at ps p)
                + my ! p * corner_sum_spec (spec_kernel ky) (point_at c d) (prism_at ps p)
                + mz ! p * corner_sum_spec (spec_kernel kz) (point_at c d) (prism_at ps p)))
          [0..<length (coord_x c)])"

text \<open>
  The product of the constants that the scaling step of \<^verbatim>\<open>grav\<close> applies for a field name:
  the gravitational constant, and the conversion to mGal for the first derivatives or to
  Eotvos for the second derivatives.
\<close>

definition grav_factor :: "constants \<Rightarrow> string \<Rightarrow> real" where
  "grav_factor cts field =
     GRAVITATIONAL_CONST cts
     * (if field \<in> set [''x'', ''y'', ''z''] then SI2MGAL cts else 1)
     * (if field \<in> set [''xx'', ''xy'', ''xz'', ''yy'', ''yz'', ''zz''] then SI2EOTVOS cts else 1)"

text \<open>
  The product of the constants that the scaling step of \<^verbatim>\<open>mag\<close> applies for a field name:
  the magnetic constant, and the conversion to nT for the components or, with a change of
  sign, to microtesla for the potential.
\<close>

definition mag_factor :: "constants \<Rightarrow> string \<Rightarrow> real" where
  "mag_factor cts field =
     CM cts
     * (if field \<in> set [''x'', ''y'', ''z''] then T2NT cts else 1)
     * (if field = ''potential'' then - T2MT cts else 1)"

subsection \<open>The scaling step in double precision\<close>

text \<open>
  A double-precision number that is finite and not subnormal: a pair \<open>(m, e)\<close> of integers
  that stands for \<open>m * 2 ^ e\<close>, where \<open>m\<close> is 0 (and \<open>e\<close> is 0) or has exactly 53 binary
  digits, sign apart. The exponent is not bounded: overflow and underflow are outside the
  model.
\<close>

type_synonym float64 = "int \<times> int"

definition float64_value :: "float64 \<Rightarrow> real" where
  "float64_value x = (case x of (m, e) \<Rightarrow>
     if 0 \<le> e then real_of_int m * 2 ^ nat e else real_of_int m / 2 ^ nat (- e))"

text \<open>The number of binary digits of a natural number.\<close>

fun binary_digits :: "nat \<Rightarrow> nat" where
  "binary_digits n = (if n = 0 then 0 else Suc (binary_digits (n div 2)))"

text \<open>
  Rounding to nearest, ties to even, of the positive number \<open>(M + t) * 2 ^ e\<close> to 53 binary
  digits, where \<open>t\<close> lies between 0 and 1 and \<open>sticky\<close> tells whether it is more than 0.
\<close>

definition round_to_nearest_even :: "nat \<Rightarrow> bool \<Rightarrow> int \<Rightarrow> float64" where
  "round_to_nearest_even M sticky e =
     (let n = binary_digits M in
      if n \<le> 53 then (int (M * 2 ^ (53 - n)), e - int (53 - n))
      else
        (let s = n - 53;
             q = M div 2 ^ s;
             r = M mod 2 ^ s;
             half = 2 ^ (s - 1);
             up = (if half < r then True
                   else if r = half then (if sticky then True else q mod 2 = 1)
                   else False);
             q = (if up then q + 1 else q)
         in if q = 2 ^ 53 then (2 ^ 52, e + int s + 1) else (int q, e + int s)))"

text \<open>The product of two double-precision numbers, as \<^verbatim>\<open>*\<close> of numpy computes it.\<close>

definition fl_mul :: "float64 \<Rightarrow> float64 \<Rightarrow> float64" where
  "fl_mul x y = (case x of (m1, e1) \<Rightarrow> case y of (m2, e2) \<Rightarrow>
     if m1 * m2 = 0 then (0, 0)
     else (case round_to_nearest_even (nat \<bar>m1\<bar> * nat \<bar>m2\<bar>) False (e1 + e2) of
             (q, e) \<Rightarrow> (sgn (m1 * m2) * q, e)))"

text \<open>
  The quotient of two double-precision numbers, as \<^verbatim>\<open>/\<close> of numpy computes it. The division
  by 0, which gives an infinity or no number, has no value in the model.
\<close>

definition fl_div :: "float64 \<Rightarrow> float64 \<Rightarrow> float64 option" where
  "fl_div x y = (case x of (m1, e1) \<Rightarrow> case y of (m2, e2) \<Rightarrow>
     if m2 = 0 then None
     else if m1 = 0 then Some (0, 0)
     else
       (let N = nat \<bar>m1\<bar> * 2 ^ 64;
            d = nat \<bar>m2\<bar>
        in (case round_to_nearest_even (N div d) (0 < N mod d) (e1 - e2 - 64) of
              (q, e) \<Rightarrow> Some (sgn (m1 * m2) * q, e))))"

text \<open>\<^verbatim>\<open>result *= c\<close> on an array of double-precision numbers.\<close>

definition times_scalar_float64 :: "float64 list \<Rightarrow> float64 \<Rightarrow> float64 list" where
  "times_scalar_float64 result c = map (\<lambda>v. fl_mul v c) result"

text \<open>
  The scaling at the end of \<^verbatim>\<open>grav\<close> on double-precision numbers; the three constants are
  the gravitational constant and the conversions to mGal and to Eotvos.
\<close>

definition scale_grav_float64 ::
  "float64 \<times> float64 \<times> float64 \<Rightarrow> string \<Rightarrow> float64 list \<Rightarrow> float64 list" where
  "scale_grav_float64 cts field result = (case cts of (gravitational_const, si2mgal, si2eotvos) \<Rightarrow>
     (let result = times_scalar_float64 result gravitational_const;
          result = (if field \<in> set [''x'', ''y'', ''z'']
                    then times_scalar_float64 result si2mgal else result);
          result = (if field \<in> set [''xx'', ''xy'', ''xz'', ''yy'', ''yz'', ''zz'']
                    then times_scalar_float64 result si2eotvos else result)
      in result))"

section \<open>Matrices as tables\<close>

text \<open>Every array operation of the corner loop maps tables to tables, entry by entry.\<close>

lemma tab_nth: "d < D \<Longrightarrow> p < P \<Longrightarrow> tab D P g ! d ! p = g d p"
  by (simp add: tab_def)

lemma tab_cong: "(\<And>d p. d < D \<Longrightarrow> p < P \<Longrightarrow> g d p = h d p) \<Longrightarrow> tab D P g = tab D P h"
  by (simp add: tab_def)

lemma map_upt_nth: "map f v = map (\<lambda>p. f (v ! p)) [0..<length v]"
  by (rule nth_equalityI) simp_all

lemma map_zip3_nth:
  "length b = length a \<Longrightarrow> length c = length a \<Longrightarrow>
   map (\<lambda>(x, y, z). f x y z) (zip a (zip b c)) = map (\<lambda>p. f (a ! p) (b ! p) (c ! p)) [0..<length a]"
  by (rule nth_equalityI) simp_all

lemma map2_upt_nth:
  "length b = length a \<Longrightarrow> map2 f a b = map (\<lambda>p. f (a ! p) (b ! p)) [0..<length a]"
  by (rule nth_equalityI) simp_all

lemma map4_upt_nth:
  "length bs = length as \<Longrightarrow> length cs = length as \<Longrightarrow> length ds = length as \<Longrightarrow>
   map4 f as bs cs ds = map (\<lambda>i. f (as ! i) (bs ! i) (cs ! i) (ds ! i)) [0..<length as]"
  unfolding map4_def by (rule nth_equalityI) simp_all

lemma length_tab [simp]: "length (tab D P g) = D"
  by (simp add: tab_def)

lemma tab_row [simp]: "d < D \<Longrightarrow> tab D P g ! d = map (g d) [0..<P]"
  by (simp add: tab_def)

lemma zeros_tab: "zeros D P = tab D P (\<lambda>d p. 0)"
proof -
  have row: "replicate P (0::real) = map (\<lambda>p. 0) [0..<P]"
    by (rule nth_equalityI) simp_all
  show ?thesis
    unfolding zeros_def tab_def row by (rule nth_equalityI) simp_all
qed

lemma outer_add_tab: "outer_add u v = tab (length u) (length v) (\<lambda>d p. u ! d + v ! p)"
proof -
  have "outer_add u v = map (\<lambda>d. map (\<lambda>b. u ! d + b) v) [0..<length u]"
    unfolding outer_add_def by (rule map_upt_nth)
  also have "\<dots> = map (\<lambda>d. map (\<lambda>p. u ! d + v ! p) [0..<length v]) [0..<length u]"
    by (subst map_upt_nth [of _ v]) simp
  finally show ?thesis by (simp add: tab_def)
qed

lemma ew4_tab:
  "ew4 f (tab D P a) (tab D P b) (tab D P c) (tab D P e) =
   tab D P (\<lambda>d p. f (a d p) (b d p) (c d p) (e d p))"
proof -
  have "ew4 f (tab D P a) (tab D P b) (tab D P c) (tab D P e) =
        map (\<lambda>d. map4 f (tab D P a ! d) (tab D P b ! d) (tab D P c ! d) (tab D P e ! d)) [0..<D]"
    unfolding ew4_def by (subst map4_upt_nth) simp_all
  also have "\<dots> = map (\<lambda>d. map (\<lambda>p. f (a d p) (b d p) (c d p) (e d p)) [0..<P]) [0..<D]"
    by (rule map_cong [OF refl]) (simp add: map4_upt_nth)
  finally show ?thesis by (simp add: tab_def)
qed

lemma mat_scale_tab: "mat_scale s (tab D P g) = tab D P (\<lambda>d p. s * g d p)"
  by (simp add: mat_scale_def tab_def)

lemma mat_add_tab: "mat_add (tab D P g) (tab D P h) = tab D P (\<lambda>d p. g d p + h d p)"
proof -
  have "mat_add (tab D P g) (tab D P h) =
        map (\<lambda>d. map2 (+) (tab D P g ! d) (tab D P h ! d)) [0..<D]"
    unfolding mat_add_def by (subst map2_upt_nth) simp_all
  also have "\<dots> = map (\<lambda>d. map (\<lambda>p. g d p + h d p) [0..<P]) [0..<D]"
    by (rule map_cong [OF refl]) (simp add: map2_upt_nth)
  finally show ?thesis by (simp add: tab_def)
qed

lemma sqrt_tab: "map (map sqrt) (tab D P g) = tab D P (\<lambda>d p. sqrt (g d p))"
  by (simp add: tab_def)

lemma sedm_tab:
  assumes "length (coord_y c) = length (coord_x c)" "length (coord_z c) = length (coord_x c)"
    "length (coord_y v) = length (coord_x v)" "length (coord_z v) = length (coord_x v)"
  shows "sedm c v = tab (length (coord_x c)) (length (coord_x v))
     (\<lambda>d p. (coord_x c ! d - coord_x v ! p) ^ 2 + (coord_y c ! d - coord_y v ! p) ^ 2
           + (coord_z c ! d - coord_z v ! p) ^ 2)"
  unfolding sedm_def tab_def
  by (simp only: map_zip3_nth [OF assms(1,2)] map_zip3_nth [OF assms(3,4)])


lemma vertex_contribution_tab:
  assumes "length (coord_y c) = length (coord_x c)" "length (coord_z c) = length (coord_x c)"
    and "length (x2 ps) = length (x1 ps)" "length (y1 ps) = length (x1 ps)"
      "length (y2 ps) = length (x1 ps)" "length (z1 ps) = length (x1 ps)"
      "length (z2 ps) = length (x1 ps)"
  shows "vertex_contribution c ps K i j k (tab (length (coord_x c)) (length (x1 ps)) g) =
    tab (length (coord_x c)) (length (x1 ps))
      (\<lambda>d p. g d p + (- 1) ^ (i + j + k) *
         K (- (coord_x c ! d) + (if i = 1 then x1 ps else x2 ps) ! p)
           (- (coord_y c ! d) + (if j = 1 then y1 ps else y2 ps) ! p)
           (- (coord_z c ! d) + (if k = 1 then z1 ps else z2 ps) ! p)
           (sqrt ((coord_x c ! d - (if i = 1 then x1 ps else x2 ps) ! p) ^ 2
                + (coord_y c ! d - (if j = 1 then y1 ps else y2 ps) ! p) ^ 2
                + (coord_z c ! d - (if k = 1 then z1 ps else z2 ps) ! p) ^ 2)))"
proof -
  let ?D = "length (coord_x c)" and ?P = "length (x1 ps)"
  let ?v = "\<lparr>coord_x = (if i = 1 then x1 ps else x2 ps),
            coord_y = (if j = 1 then y1 ps else y2 ps),
            coord_z = (if k = 1 then z1 ps else z2 ps)\<rparr>"
  have lv: "length (coord_x ?v) = ?P" "length (coord_y ?v) = length (coord_x ?v)"
    "length (coord_z ?v) = length (coord_x ?v)"
    using assms by simp_all
  have X: "outer_add (map uminus (coord_x c)) (coord_x ?v) =
      tab ?D ?P (\<lambda>d p. - (coord_x c ! d) + coord_x ?v ! p)"
    unfolding outer_add_tab using lv(1) by (simp add: tab_def)
  have Y: "outer_add (map uminus (coord_y c)) (coord_y ?v) =
      tab ?D ?P (\<lambda>d p. - (coord_y c ! d) + coord_y ?v ! p)"
    unfolding outer_add_tab using lv assms(1) by (simp add: tab_def)
  have Z: "outer_add (map uminus (coord_z c)) (coord_z ?v) =
      tab ?D ?P (\<lambda>d p. - (coord_z c ! d) + coord_z ?v ! p)"
    unfolding outer_add_tab using lv assms(2) by (simp add: tab_def)
  have R: "map (map sqrt) (sedm c ?v) =
      tab ?D ?P (\<lambda>d p. sqrt ((coord_x c ! d - coord_x ?v ! p) ^ 2
         + (coord_y c ! d - coord_y ?v ! p) ^ 2 + (coord_z c ! d - coord_z ?v ! p) ^ 2))"
    unfolding sedm_tab [OF assms(1,2) lv(2,3)] sqrt_tab lv(1) ..
  show ?thesis
    unfolding vertex_contribution_def Let_def X Y Z R ew4_tab mat_scale_tab mat_add_tab
    by simp
qed

section \<open>The corner loop of the array version\<close>

lemma corner_sum_spec_explicit:
  "corner_sum_spec K (px, py, pz) (a1, a2, b1, b2, c1, c2) =
     - K (a1 - px) (b1 - py) (c1 - pz) (sqrt ((a1 - px) ^ 2 + (b1 - py) ^ 2 + (c1 - pz) ^ 2))
     + K (a2 - px) (b1 - py) (c1 - pz) (sqrt ((a2 - px) ^ 2 + (b1 - py) ^ 2 + (c1 - pz) ^ 2))
     + K (a1 - px) (b2 - py) (c1 - pz) (sqrt ((a1 - px) ^ 2 + (b2 - py) ^ 2 + (c1 - pz) ^ 2))
     + K (a1 - px) (b1 - py) (c2 - pz) (sqrt ((a1 - px) ^ 2 + (b1 - py) ^ 2 + (c2 - pz) ^ 2))
     - K (a2 - px) (b2 - py) (c1 - pz) (sqrt ((a2 - px) ^ 2 + (b2 - py) ^ 2 + (c1 - pz) ^ 2))
     - K (a2 - px) (b1 - py) (c2 - pz) (sqrt ((a2 - px) ^ 2 + (b1 - py) ^ 2 + (c2 - pz) ^ 2))
     - K (a1 - px) (b2 - py) (c2 - pz) (sqrt ((a1 - px) ^ 2 + (b2 - py) ^ 2 + (c2 - pz) ^ 2))
     + K (a2 - px) (b2 - py) (c2 - pz) (sqrt ((a2 - px) ^ 2 + (b2 - py) ^ 2 + (c2 - pz) ^ 2))"
  by (simp add: corner_sum_spec_def Let_def)

lemma rel_coord: "- (a::real) + b = b - a"
  by simp

lemma vertices_loop_tab:
  assumes "valid_input c ps D P"
  shows "vertices_loop c ps K =
    tab D P (\<lambda>d p. corner_sum_spec K (point_at c d) (prism_at ps p))"
proof -
  have len: "length (coord_y c) = length (coord_x c)" "length (coord_z c) = length (coord_x c)"
    "length (x2 ps) = length (x1 ps)" "length (y1 ps) = length (x1 ps)"
    "length (y2 ps) = length (x1 ps)" "length (z1 ps) = length (x1 ps)"
    "length (z2 ps) = length (x1 ps)"
    and D: "length (coord_x c) = D" and P: "length (x1 ps) = P"
    using assms
    by (auto simp: valid_input_def are_coordinates_def are_rectangular_prisms_def
        split: if_splits)
  have "vertices_loop c ps K = tab (length (coord_x c)) (length (x1 ps))
      (\<lambda>d p. corner_sum_spec K (point_at c d) (prism_at ps p))"
    unfolding vertices_loop_def zeros_tab fold_simps comp_def
      vertex_contribution_tab [OF len]
    by (rule tab_cong)
      (simp add: point_at_def prism_at_def corner_sum_spec_explicit rel_coord
        power2_commute [of "coord_x c ! _"] power2_commute [of "coord_y c ! _"]
        power2_commute [of "coord_z c ! _"])
  then show ?thesis by (simp only: D P)
qed

section \<open>The array version in closed form\<close>

lemma weighted_row_sum:
  assumes "length (sigma :: real list) = P"
  shows "sum_list (map2 (*) (map g [0..<P]) sigma) = (\<Sum>p = 0..<P. sigma ! p * g p)"
proof -
  have "map2 (*) (map g [0..<P]) sigma = map (\<lambda>p. sigma ! p * g p) [0..<P]"
  proof (rule nth_equalityI)
    show "length (map2 (*) (map g [0..<P]) sigma) = length (map (\<lambda>p. sigma ! p * g p) [0..<P])"
      using assms by simp
  next
    fix i assume "i < length (map2 (*) (map g [0..<P]) sigma)"
    then have "i < P" by simp
    then show "map2 (*) (map g [0..<P]) sigma ! i = map (\<lambda>p. sigma ! p * g p) [0..<P] ! i"
      using assms by (simp add: mult.commute [of "g i"])
  qed
  then show ?thesis
    by (simp add: interv_sum_list_conv_sum_set_nat)
qed

lemma iterate_over_vertices_eq:
  assumes v: "valid_input c ps D P" and s: "length sigma = P"
  shows "iterate_over_vertices c ps sigma K = map (assembled_spec K c ps sigma) [0..<D]"
proof -
  have P: "length (x1 ps) = P"
    using v by (auto simp: valid_input_def are_rectangular_prisms_def split: if_splits)
  show ?thesis
    unfolding iterate_over_vertices_def Let_def vertices_loop_tab [OF v] tab_def
    by (simp add: weighted_row_sum [OF s] assembled_spec_def P comp_def)
qed

section \<open>The loops of the compiled version in closed form\<close>

lemma fold_accumulate_at:
  "l < length (out :: real list) \<Longrightarrow>
   fold (\<lambda>p out. out[l := out ! l + g p]) [0..<P] out = out[l := out ! l + (\<Sum>p = 0..<P. g p)]"
proof (induction P)
  case 0
  then show ?case by simp
next
  case (Suc P)
  then show ?case by (simp add: add.assoc)
qed

lemma fold_update_each:
  "D \<le> length (out :: real list) \<Longrightarrow>
   fold (\<lambda>l out. out[l := out ! l + h l]) [0..<D] out =
   map (\<lambda>l. out ! l + h l) [0..<D] @ drop D out"
proof (induction D)
  case 0
  then show ?case by simp
next
  case (Suc D)
  then have D: "D < length out" by simp
  have "fold (\<lambda>l out. out[l := out ! l + h l]) [0..<Suc D] out =
        (map (\<lambda>l. out ! l + h l) [0..<D] @ drop D out)[D := (map (\<lambda>l. out ! l + h l) [0..<D] @ drop D out) ! D + h D]"
    using Suc by simp
  also have "\<dots> = map (\<lambda>l. out ! l + h l) [0..<D] @ (drop D out)[0 := out ! D + h D]"
    using D by (simp add: list_update_append nth_append)
  also have "(drop D out)[0 := out ! D + h D] = (out ! D + h D) # drop (Suc D) out"
    using D by (simp add: Cons_nth_drop_Suc [symmetric])
  finally show ?case by simp
qed

lemma fold_update_zeros:
  "fold (\<lambda>l out. out[l := out ! l + h l]) [0..<D] (replicate D (0::real)) = map h [0..<D]"
  by (subst fold_update_each) simp_all

lemma corner_sum_spec_cong:
  assumes "\<And>X Y Z. K X Y Z (sqrt (X ^ 2 + Y ^ 2 + Z ^ 2)) = K' X Y Z (sqrt (X ^ 2 + Y ^ 2 + Z ^ 2))"
  shows "corner_sum_spec K pt prism = corner_sum_spec K' pt prism"
  by (cases pt, cases prism) (simp add: corner_sum_spec_explicit assms)

lemma array_rows:
  "coordinates_array c ! 0 = coord_x c" "coordinates_array c ! 1 = coord_y c"
  "coordinates_array c ! 2 = coord_z c"
  by (simp_all add: coordinates_array_def)

lemma prisms_array_row:
  "p < length (x1 ps) \<Longrightarrow>
   prisms_array ps ! p = [x1 ps ! p, x2 ps ! p, y1 ps ! p, y2 ps ! p, z1 ps ! p, z2 ps ! p]"
  by (simp add: prisms_array_def)

lemma length_prisms_array: "length (prisms_array ps) = length (x1 ps)"
  by (simp add: prisms_array_def)

lemma corner_terms_eq:
  "f (a2 - px) (b2 - py) (c2 - pz)
   - f (a2 - px) (b2 - py) (c1 - pz)
   - f (a1 - px) (b2 - py) (c2 - pz)
   + f (a1 - px) (b2 - py) (c1 - pz)
   - f (a2 - px) (b1 - py) (c2 - pz)
   + f (a2 - px) (b1 - py) (c1 - pz)
   + f (a1 - px) (b1 - py) (c2 - pz)
   - f (a1 - px) (b1 - py) (c1 - pz)
   = corner_sum_spec (\<lambda>X Y Z R. f X Y Z) (px, py, pz) (a1, a2, b1, b2, c1, c2)"
  unfolding corner_sum_spec_explicit by simp

lemma jit_grav_body_eq:
  assumes "p < length (x1 ps)"
  shows "jit_grav_body (coordinates_array c) (prisms_array ps) density f l p out =
    out[l := out ! l + density ! p *
       corner_sum_spec (\<lambda>X Y Z R. f X Y Z) (point_at c l) (prism_at ps p)]"
  unfolding jit_grav_body_def Let_def array_rows prisms_array_row [OF assms]
    point_at_def prism_at_def corner_terms_eq [symmetric]
  by simp

lemma double_loop:
  fixes B :: "nat \<Rightarrow> nat \<Rightarrow> real list \<Rightarrow> real list"
  assumes B: "\<And>l p out. l < D \<Longrightarrow> p < P \<Longrightarrow> length out = D \<Longrightarrow>
     B l p out = out[l := out ! l + g l p]"
  shows "fold (\<lambda>l. fold (\<lambda>p. B l p) [0..<P]) [0..<D] (replicate D 0) =
     map (\<lambda>l. \<Sum>p = 0..<P. g l p) [0..<D]"
proof -
  have inner: "fold (\<lambda>p. B l p) [0..<Q] out = out[l := out ! l + (\<Sum>p = 0..<Q. g l p)]"
    if "l < D" "length out = D" "Q \<le> P" for l out Q
    using that
  proof (induction Q)
    case 0
    then show ?case by simp
  next
    case (Suc Q)
    then show ?case by (simp add: B add.assoc)
  qed
  have outer: "fold (\<lambda>l. fold (\<lambda>p. B l p) [0..<P]) [0..<n] out =
      fold (\<lambda>l out. out[l := out ! l + (\<Sum>p = 0..<P. g l p)]) [0..<n] out
      \<and> length (fold (\<lambda>l. fold (\<lambda>p. B l p) [0..<P]) [0..<n] out) = D"
    if "n \<le> D" "length out = D" for n out
    using that
  proof (induction n)
    case 0
    then show ?case by simp
  next
    case (Suc n)
    let ?mid = "fold (\<lambda>l. fold (\<lambda>p. B l p) [0..<P]) [0..<n] out"
    have n: "n \<le> D" using Suc.prems(1) by simp
    note IH = Suc.IH [OF n Suc.prems(2)]
    note mid = IH [THEN conjunct1] and len = IH [THEN conjunct2]
    have "fold (\<lambda>l. fold (\<lambda>p. B l p) [0..<P]) [0..<Suc n] out = fold (\<lambda>p. B n p) [0..<P] ?mid"
      by simp
    also have "\<dots> = ?mid[n := ?mid ! n + (\<Sum>p = 0..<P. g n p)]"
      using Suc.prems len by (intro inner) simp_all
    finally have eq: "fold (\<lambda>l. fold (\<lambda>p. B l p) [0..<P]) [0..<Suc n] out =
        ?mid[n := ?mid ! n + (\<Sum>p = 0..<P. g n p)]" .
    have "length (fold (\<lambda>l. fold (\<lambda>p. B l p) [0..<P]) [0..<Suc n] out) = D"
      unfolding eq using len by simp
    moreover have "fold (\<lambda>l. fold (\<lambda>p. B l p) [0..<P]) [0..<Suc n] out =
        fold (\<lambda>l out. out[l := out ! l + (\<Sum>p = 0..<P. g l p)]) [0..<Suc n] out"
      unfolding eq by (subst (1 2) mid) simp
    ultimately show ?case by simp
  qed
  show ?thesis
    using outer [of D "replicate D 0"] by (simp add: fold_update_zeros)
qed

lemma jit_grav_eq:
  "jit_grav (coordinates_array c) (prisms_array ps) density f (replicate (length (coord_x c)) 0) =
   map (assembled_spec (\<lambda>X Y Z R. f X Y Z) c ps density) [0..<length (coord_x c)]"
  unfolding jit_grav_def array_rows length_prisms_array
  by (subst double_loop [where g = "\<lambda>l p. density ! p *
        corner_sum_spec (\<lambda>X Y Z R. f X Y Z) (point_at c l) (prism_at ps p)"])
    (simp_all add: jit_grav_body_eq assembled_spec_def)

lemma jit_mag_body_eq:
  assumes "p < length (x1 ps)" "l < length out"
  shows "jit_mag_body (coordinates_array c) (prisms_array ps) mx my mz fx fy fz l p out =
    out[l := out ! l +
       (mx ! p * corner_sum_spec (\<lambda>X Y Z R. fx X Y Z) (point_at c l) (prism_at ps p)
        + my ! p * corner_sum_spec (\<lambda>X Y Z R. fy X Y Z) (point_at c l) (prism_at ps p)
        + mz ! p * corner_sum_spec (\<lambda>X Y Z R. fz X Y Z) (point_at c l) (prism_at ps p))]"
  unfolding jit_mag_body_def Let_def array_rows prisms_array_row [OF assms(1)]
    point_at_def prism_at_def corner_terms_eq [symmetric]
  using assms(2) by (simp add: add.assoc)

lemma jit_mag_eq:
  "jit_mag (coordinates_array c) (prisms_array ps) mx my mz fx fy fz
     (replicate (length (coord_x c)) 0) =
   map (\<lambda>d. assembled_spec (\<lambda>X Y Z R. fx X Y Z) c ps mx d
           + assembled_spec (\<lambda>X Y Z R. fy X Y Z) c ps my d
           + assembled_spec (\<lambda>X Y Z R. fz X Y Z) c ps mz d) [0..<length (coord_x c)]"
  unfolding jit_mag_def array_rows length_prisms_array
  by (subst double_loop [where g = "\<lambda>l p.
        mx ! p * corner_sum_spec (\<lambda>X Y Z R. fx X Y Z) (point_at c l) (prism_at ps p)
        + my ! p * corner_sum_spec (\<lambda>X Y Z R. fy X Y Z) (point_at c l) (prism_at ps p)
        + mz ! p * corner_sum_spec (\<lambda>X Y Z R. fz X Y Z) (point_at c l) (prism_at ps p)"])
    (simp_all add: jit_mag_body_eq assembled_spec_def sum.distrib)

section \<open>The dictionaries of kernels\<close>

lemma array_kernels:
  "kernel_potential_grav = spec_kernel Potential" "kernel_x = spec_kernel Fx"
  "kernel_y = spec_kernel Fy" "kernel_z = spec_kernel Fz" "kernel_xx = spec_kernel Fxx"
  "kernel_xy = spec_kernel Fxy" "kernel_xz = spec_kernel Fxz" "kernel_yy = spec_kernel Fyy"
  "kernel_yz = spec_kernel Fyz" "kernel_zz = spec_kernel Fzz"
  by (simp_all add: fun_eq_iff kernel_potential_grav_def kernel_x_def kernel_y_def kernel_z_def
      kernel_xx_def kernel_xy_def kernel_xz_def kernel_yy_def kernel_yz_def kernel_zz_def)

lemma compiled_kernels:
  "kernel_inverse_r = with_distance (spec_kernel Potential)"
  "kernel_dx = with_distance (spec_kernel Fx)" "kernel_dy = with_distance (spec_kernel Fy)"
  "kernel_dz = with_distance (spec_kernel Fz)" "kernel_dxx = with_distance (spec_kernel Fxx)"
  "kernel_dxy = with_distance (spec_kernel Fxy)" "kernel_dxz = with_distance (spec_kernel Fxz)"
  "kernel_dyy = with_distance (spec_kernel Fyy)" "kernel_dyz = with_distance (spec_kernel Fyz)"
  "kernel_dzz = with_distance (spec_kernel Fzz)"
  by (simp_all add: fun_eq_iff with_distance_def kernel_inverse_r_def kernel_dx_def kernel_dy_def
      kernel_dz_def kernel_dxx_def kernel_dxy_def kernel_dxz_def kernel_dyy_def kernel_dyz_def
      kernel_dzz_def Let_def mult.commute)

lemma kernels_grav_kind: "kernels_grav field = map_option spec_kernel (field_kind_of field)"
  by (simp add: kernels_grav_def field_kind_of_def array_kernels)

lemma fields_grav_kind:
  "fields_grav field = map_option (\<lambda>k. with_distance (spec_kernel k)) (field_kind_of field)"
  by (simp add: fields_grav_def field_kind_of_def compiled_kernels)

lemma kernels_mag_kind:
  "kernels_mag field =
   map_option (\<lambda>(kx, ky, kz). (spec_kernel kx, spec_kernel ky, spec_kernel kz)) (mag_kinds_of field)"
  by (simp add: kernels_mag_def mag_kinds_of_def array_kernels)

lemma fields_mag_kind:
  "fields_mag field =
   map_option (\<lambda>(kx, ky, kz). (with_distance (spec_kernel kx), with_distance (spec_kernel ky),
       with_distance (spec_kernel kz))) (mag_kinds_of field)"
  by (simp add: fields_mag_def mag_kinds_of_def compiled_kernels)

lemma field_kind_of_dom: "field_kind_of field \<noteq> None \<longleftrightarrow> field \<in> set grav_fields"
  by (simp add: field_kind_of_def grav_fields_def)

lemma mag_kinds_of_dom: "mag_kinds_of field \<noteq> None \<longleftrightarrow> field \<in> set mag_fields"
  by (simp add: mag_kinds_of_def mag_fields_def)

section \<open>The entry points in closed form\<close>

lemma valid_inputD:
  assumes "valid_input c ps D P"
  shows "are_coordinates c = Inr D" "are_rectangular_prisms ps = Inr P"
    "length (coord_x c) = D" "length (coord_y c) = D" "length (coord_z c) = D"
    "length (x1 ps) = P"
  using assms
  by (auto simp: valid_input_def are_coordinates_def are_rectangular_prisms_def
      split: if_splits)

lemma assembled_with_distance:
  "assembled_spec (\<lambda>X Y Z R. with_distance K X Y Z) c ps sigma d = assembled_spec K c ps sigma d"
  unfolding assembled_spec_def
  by (intro sum.cong refl arg_cong2 [where f = "(*)"] corner_sum_spec_cong)
    (simp add: with_distance_def)

lemma grav_closed:
  assumes v: "valid_input c ps D P" and l: "length density = P"
  shows "grav cts c ps density field scale =
    (case field_kind_of field of
       None \<Rightarrow> Inl (ValueError (''Gravitational field '' @ field @ '' not recognized''))
     | Some k \<Rightarrow> Inr (if scale then scale_grav cts field (grav_spec k c ps density)
                      else grav_spec k c ps density))"
  unfolding grav_def valid_inputD(1,2) [OF v] kernels_grav_kind
  by (simp add: is_array_def l iterate_over_vertices_eq [OF v l] grav_spec_def
      assembled_spec_def [abs_def] valid_inputD(3) [OF v] split: option.split)

lemma jit_grav_closed:
  assumes v: "valid_input c ps D P"
  shows "jit_grav (coordinates_array c) (prisms_array ps) density (with_distance K) (replicate D 0)
      = map (assembled_spec K c ps density) [0..<D]"
  using jit_grav_eq [of c ps density "with_distance K"]
  by (simp add: valid_inputD(3) [OF v] assembled_with_distance)

lemma jit_grav_iterate_over_vertices:
  assumes v: "valid_input c ps D P" and l: "length density = P"
  shows "jit_grav (coordinates_array c) (prisms_array ps) density (with_distance K) (replicate D 0)
      = iterate_over_vertices c ps density K"
  by (simp add: jit_grav_closed [OF v] iterate_over_vertices_eq [OF v l]
      valid_inputD(3) [OF v])

lemma jit_grav_spec:
  assumes v: "valid_input c ps D P" and k: "fields_grav field = Some field_fn"
    "field_kind_of field = Some kind"
  shows "jit_grav (coordinates_array c) (prisms_array ps) density field_fn (replicate D 0)
      = grav_spec kind c ps density"
proof -
  have "field_fn = with_distance (spec_kernel kind)"
    using k by (simp add: fields_grav_kind)
  then show ?thesis
    by (simp add: jit_grav_closed [OF v] grav_spec_def assembled_spec_def [abs_def]
        valid_inputD(3) [OF v])
qed

lemma njit_Array [simp]: "njit loop (Array A) (Array B) = Inr (loop A B)"
  by (simp add: njit_def)

lemma njit_Dictionary [simp]: "njit loop (Dictionary c) prisms = Inl TypingError"
  by (simp add: njit_def)

lemma grav_numba_closed:
  assumes v: "valid_input c ps D P" and l: "length density = P"
  shows "grav_numba cts c ps density field scale =
    (case field_kind_of field of
       None \<Rightarrow> Inl (ValueError (''Gravitational field '' @ field @ '' not recognized''))
     | Some k \<Rightarrow> Inl TypingError)"
  unfolding grav_numba_def valid_inputD(1,2) [OF v] fields_grav_kind
  by (simp add: is_array_def l split: option.split)

lemma map2_add_upt:
  "map2 (+) (map f [0..<D]) (map g [0..<D]) = map (\<lambda>d. f d + g d :: real) [0..<D]"
  by (rule nth_equalityI) simp_all

lemma mag_spec_sum:
  "mag_spec (kx, ky, kz) c ps mx my mz =
   map (\<lambda>d. assembled_spec (spec_kernel kx) c ps mx d + assembled_spec (spec_kernel ky) c ps my d
          + assembled_spec (spec_kernel kz) c ps mz d) [0..<length (coord_x c)]"
  by (simp add: mag_spec_def assembled_spec_def sum.distrib)

lemma mag_closed:
  assumes v: "valid_input c ps D P"
    and l: "length mx = P" "length my = P" "length mz = P"
  shows "mag cts c ps mx my mz field scale =
    (case mag_kinds_of field of
       None \<Rightarrow> Inl (ValueError (''Magnetic field '' @ field @ '' not recognized''))
     | Some ks \<Rightarrow> Inr (if scale then scale_mag cts field (mag_spec ks c ps mx my mz)
                       else mag_spec ks c ps mx my mz))"
  unfolding mag_def valid_inputD(1,2) [OF v] kernels_mag_kind
  by (simp add: is_array_def l iterate_over_vertices_eq [OF v] map2_add_upt mag_spec_sum
      valid_inputD(3) [OF v] split: option.split prod.split)

lemma jit_mag_closed:
  assumes v: "valid_input c ps D P"
  shows "jit_mag (coordinates_array c) (prisms_array ps) mx my mz
        (with_distance Kx) (with_distance Ky) (with_distance Kz) (replicate D 0)
      = map (\<lambda>d. assembled_spec Kx c ps mx d + assembled_spec Ky c ps my d
              + assembled_spec Kz c ps mz d) [0..<D]"
  using jit_mag_eq [of c ps mx my mz "with_distance Kx" "with_distance Ky" "with_distance Kz"]
  by (simp add: valid_inputD(3) [OF v] assembled_with_distance)


lemma mag_numba_closed:
  assumes v: "valid_input c ps D P"
    and l: "length mx = P" "length my = P" "length mz = P"
  shows "mag_numba cts c ps mx my mz field scale =
    (case mag_kinds_of field of
       None \<Rightarrow> Inl (ValueError (''Magnetic field '' @ field @ '' not recognized''))
     | Some ks \<Rightarrow> Inl TypingError)"
  unfolding mag_numba_def valid_inputD(1,2) [OF v] fields_mag_kind
  by (simp add: is_array_def l split: option.split prod.split)

section \<open>The compiled loops and the array version\<close>

lemma length_iterate_over_vertices:
  assumes v: "valid_input c ps D P" and l: "length sigma = P"
  shows "length (iterate_over_vertices c ps sigma K) = D"
  by (simp add: iterate_over_vertices_eq [OF v l])

lemma jit_mag_iterate_over_vertices:
  assumes v: "valid_input c ps D P"
    and l: "length mx = P" "length my = P" "length mz = P"
  shows "jit_mag (coordinates_array c) (prisms_array ps) mx my mz
        (with_distance Kx) (with_distance Ky) (with_distance Kz) (replicate D 0)
      = map2 (+) (map2 (+) (iterate_over_vertices c ps mx Kx) (iterate_over_vertices c ps my Ky))
          (iterate_over_vertices c ps mz Kz)"
  by (simp add: jit_mag_closed [OF v] iterate_over_vertices_eq [OF v] l map2_add_upt)

section \<open>The scaling step as one multiplication\<close>

lemma scale_grav_factor:
  "scale_grav cts field result = map (\<lambda>v. v * grav_factor cts field) result"
  by (simp add: scale_grav_def grav_factor_def times_scalar_def Let_def mult.assoc)

lemma scale_mag_factor:
  "scale_mag cts field result = map (\<lambda>v. v * mag_factor cts field) result"
  by (simp add: scale_mag_def mag_factor_def times_scalar_def Let_def mult.assoc)

lemma grav_factor_nonzero:
  "GRAVITATIONAL_CONST cts \<noteq> 0 \<Longrightarrow> SI2MGAL cts \<noteq> 0 \<Longrightarrow> SI2EOTVOS cts \<noteq> 0 \<Longrightarrow>
   grav_factor cts field \<noteq> 0"
  by (simp add: grav_factor_def)

section \<open>The kernels and the table of the specification\<close>

text \<open>
  Claim C3. Each of the ten gravitational kernels is the formula of the specification, as a
  function of \<open>X\<close>, \<open>Y\<close>, \<open>Z\<close> and \<open>R\<close>: the ten kernels of the array version, which receive
  \<open>R\<close>, and the ten kernels of the compiled version, which compute \<open>R\<close> as the square root
  of \<open>X\<^sup>2 + Y\<^sup>2 + Z\<^sup>2\<close>.
\<close>

theorem kernels_match_table:
  "kernel_potential_grav X Y Z R = spec_kernel Potential X Y Z R
   \<and> kernel_x X Y Z R = spec_kernel Fx X Y Z R
   \<and> kernel_y X Y Z R = spec_kernel Fy X Y Z R
   \<and> kernel_z X Y Z R = spec_kernel Fz X Y Z R
   \<and> kernel_xx X Y Z R = spec_kernel Fxx X Y Z R
   \<and> kernel_xy X Y Z R = spec_kernel Fxy X Y Z R
   \<and> kernel_xz X Y Z R = spec_kernel Fxz X Y Z R
   \<and> kernel_yy X Y Z R = spec_kernel Fyy X Y Z R
   \<and> kernel_yz X Y Z R = spec_kernel Fyz X Y Z R
   \<and> kernel_zz X Y Z R = spec_kernel Fzz X Y Z R
   \<and> kernel_inverse_r X Y Z = spec_kernel Potential X Y Z (sqrt (X ^ 2 + Y ^ 2 + Z ^ 2))
   \<and> kernel_dx X Y Z = spec_kernel Fx X Y Z (sqrt (X ^ 2 + Y ^ 2 + Z ^ 2))
   \<and> kernel_dy X Y Z = spec_kernel Fy X Y Z (sqrt (X ^ 2 + Y ^ 2 + Z ^ 2))
   \<and> kernel_dz X Y Z = spec_kernel Fz X Y Z (sqrt (X ^ 2 + Y ^ 2 + Z ^ 2))
   \<and> kernel_dxx X Y Z = spec_kernel Fxx X Y Z (sqrt (X ^ 2 + Y ^ 2 + Z ^ 2))
   \<and> kernel_dxy X Y Z = spec_kernel Fxy X Y Z (sqrt (X ^ 2 + Y ^ 2 + Z ^ 2))
   \<and> kernel_dxz X Y Z = spec_kernel Fxz X Y Z (sqrt (X ^ 2 + Y ^ 2 + Z ^ 2))
   \<and> kernel_dyy X Y Z = spec_kernel Fyy X Y Z (sqrt (X ^ 2 + Y ^ 2 + Z ^ 2))
   \<and> kernel_dyz X Y Z = spec_kernel Fyz X Y Z (sqrt (X ^ 2 + Y ^ 2 + Z ^ 2))
   \<and> kernel_dzz X Y Z = spec_kernel Fzz X Y Z (sqrt (X ^ 2 + Y ^ 2 + Z ^ 2))"
  by (simp add: kernel_potential_grav_def kernel_x_def kernel_y_def kernel_z_def
      kernel_xx_def kernel_xy_def kernel_xz_def kernel_yy_def kernel_yz_def kernel_zz_def
      kernel_inverse_r_def kernel_dx_def kernel_dy_def kernel_dz_def kernel_dxx_def
      kernel_dxy_def kernel_dxz_def kernel_dyy_def kernel_dyz_def kernel_dzz_def Let_def
      mult.commute)

section \<open>The safe logarithm and arctangent\<close>

lemma atan2_range: "- pi < atan2 y x \<and> atan2 y x \<le> pi"
proof -
  have b: "- (pi / 2) < arctan (y / x)" "arctan (y / x) < pi / 2"
    by (rule arctan_lbound, rule arctan_ubound)
  have neg: "x < 0 \<Longrightarrow> 0 \<le> y \<Longrightarrow> arctan (y / x) \<le> 0"
    by (simp add: arctan_le_zero_iff divide_nonneg_neg)
  have pos: "x < 0 \<Longrightarrow> y < 0 \<Longrightarrow> 0 < arctan (y / x)"
    by (simp add: zero_less_arctan_iff divide_neg_neg)
  have p: "0 < pi" by simp
  show ?thesis
    unfolding atan2_def using b neg pos p by (auto simp del: pi_gt_zero) 
qed

text \<open>
  Claim C5. \<open>safe_log\<close> is 0 on every argument that is not positive, and the logarithm on
  every positive argument; \<open>safe_atan2\<close> is 0 whenever the denominator is 0, whatever the
  numerator, and the two-argument arctangent otherwise, so that its values lie between
  \<open>- pi\<close> (excluded) and \<open>pi\<close> (included). Both are total: they are defined on every real
  number, and on arrays they act entry by entry.
\<close>

theorem safe_functions:
  "(t \<le> 0 \<longrightarrow> safe_log t = 0)
   \<and> (0 < t \<longrightarrow> safe_log t = ln t)
   \<and> safe_atan2 n 0 = 0
   \<and> (d \<noteq> 0 \<longrightarrow> safe_atan2 n d = atan2 n d)
   \<and> - pi < safe_atan2 n d \<and> safe_atan2 n d \<le> pi"
  using atan2_range [of n d] by (simp add: safe_log_def safe_atan2_def)

theorem safe_functions_witness:
  "safe_log (- 1) = 0 \<and> safe_log 0 = 0 \<and> safe_log 1 = 0
   \<and> safe_atan2 5 0 = 0 \<and> safe_atan2 (- 5) 0 = 0
   \<and> safe_atan2 1 1 = pi / 4 \<and> safe_atan2 0 (- 1) = pi"
  using safe_functions [of "- 1" 5 1] safe_functions [of 0 "- 5" 1]
    safe_functions [of 1 1 1] safe_functions [of 1 0 "- 1"]
  by (simp add: atan2_def arctan_one)

section \<open>The two execution strategies\<close>

text \<open>
  Claim C1. The claim is that for every valid input (a dictionary of \<open>D\<close> points, \<open>P\<close>
  prisms, source properties of length \<open>P\<close>) and every supported field name, the array
  version and the compiled version return the same array of length \<open>D\<close>, so that the one
  can stand for the other. The code does not do this. The loops themselves agree: on the
  arrays of two dimensions that hold the points and the prisms, \<^verbatim>\<open>jit_grav\<close> and \<^verbatim>\<open>jit_mag\<close>
  compute what \<^verbatim>\<open>iterate_over_vertices\<close> computes from the dictionaries. But \<^verbatim>\<open>grav\<close> and
  \<^verbatim>\<open>mag\<close> of the compiled version validate dictionaries, as their documentation says, and
  hand these dictionaries to the loops, which index arrays: the call raises and no array
  is returned. Here for the points \<open>(0, 0, - 3)\<close> and \<open>(4, 0, - 1)\<close>, one prism and the
  field \<open>z\<close>: the array version returns an array of length 2, the compiled version the
  error, and the loop on the arrays would have given the array of the array version.
\<close>

theorem compiled_entry_points_raise:
  "grav \<lparr>GRAVITATIONAL_CONST = 2, SI2MGAL = 3, SI2EOTVOS = 5, CM = 7, T2NT = 11, T2MT = 13\<rparr>
     \<lparr>coord_x = [0, 4], coord_y = [0, 0], coord_z = [- 3, - 1]\<rparr>
     \<lparr>x1 = [- 1], x2 = [1], y1 = [- 1], y2 = [1], z1 = [0], z2 = [2]\<rparr> [1000] ''z'' False
   = Inr (iterate_over_vertices \<lparr>coord_x = [0, 4], coord_y = [0, 0], coord_z = [- 3, - 1]\<rparr>
       \<lparr>x1 = [- 1], x2 = [1], y1 = [- 1], y2 = [1], z1 = [0], z2 = [2]\<rparr> [1000] kernel_z)
   \<and> length (iterate_over_vertices \<lparr>coord_x = [0, 4], coord_y = [0, 0], coord_z = [- 3, - 1]\<rparr>
       \<lparr>x1 = [- 1], x2 = [1], y1 = [- 1], y2 = [1], z1 = [0], z2 = [2]\<rparr> [1000] kernel_z) = 2
   \<and> grav_numba \<lparr>GRAVITATIONAL_CONST = 2, SI2MGAL = 3, SI2EOTVOS = 5, CM = 7, T2NT = 11, T2MT = 13\<rparr>
     \<lparr>coord_x = [0, 4], coord_y = [0, 0], coord_z = [- 3, - 1]\<rparr>
     \<lparr>x1 = [- 1], x2 = [1], y1 = [- 1], y2 = [1], z1 = [0], z2 = [2]\<rparr> [1000] ''z'' False
   = Inl TypingError
   \<and> jit_grav [[0, 4], [0, 0], [- 3, - 1]] [[- 1, 1, - 1, 1, 0, 2]] [1000] kernel_dz [0, 0]
   = iterate_over_vertices \<lparr>coord_x = [0, 4], coord_y = [0, 0], coord_z = [- 3, - 1]\<rparr>
       \<lparr>x1 = [- 1], x2 = [1], y1 = [- 1], y2 = [1], z1 = [0], z2 = [2]\<rparr> [1000] kernel_z
   \<and> mag \<lparr>GRAVITATIONAL_CONST = 2, SI2MGAL = 3, SI2EOTVOS = 5, CM = 7, T2NT = 11, T2MT = 13\<rparr>
     \<lparr>coord_x = [0, 4], coord_y = [0, 0], coord_z = [- 3, - 1]\<rparr>
     \<lparr>x1 = [- 1], x2 = [1], y1 = [- 1], y2 = [1], z1 = [0], z2 = [2]\<rparr> [1] [2] [3] ''z'' False
   = Inr (map2 (+) (map2 (+)
       (iterate_over_vertices \<lparr>coord_x = [0, 4], coord_y = [0, 0], coord_z = [- 3, - 1]\<rparr>
          \<lparr>x1 = [- 1], x2 = [1], y1 = [- 1], y2 = [1], z1 = [0], z2 = [2]\<rparr> [1] kernel_xz)
       (iterate_over_vertices \<lparr>coord_x = [0, 4], coord_y = [0, 0], coord_z = [- 3, - 1]\<rparr>
          \<lparr>x1 = [- 1], x2 = [1], y1 = [- 1], y2 = [1], z1 = [0], z2 = [2]\<rparr> [2] kernel_yz))
       (iterate_over_vertices \<lparr>coord_x = [0, 4], coord_y = [0, 0], coord_z = [- 3, - 1]\<rparr>
          \<lparr>x1 = [- 1], x2 = [1], y1 = [- 1], y2 = [1], z1 = [0], z2 = [2]\<rparr> [3] kernel_zz))
   \<and> mag_numba \<lparr>GRAVITATIONAL_CONST = 2, SI2MGAL = 3, SI2EOTVOS = 5, CM = 7, T2NT = 11, T2MT = 13\<rparr>
     \<lparr>coord_x = [0, 4], coord_y = [0, 0], coord_z = [- 3, - 1]\<rparr>
     \<lparr>x1 = [- 1], x2 = [1], y1 = [- 1], y2 = [1], z1 = [0], z2 = [2]\<rparr> [1] [2] [3] ''z'' False
   = Inl TypingError
   \<and> jit_mag [[0, 4], [0, 0], [- 3, - 1]] [[- 1, 1, - 1, 1, 0, 2]] [1] [2] [3]
       kernel_dxz kernel_dyz kernel_dzz [0, 0]
   = map2 (+) (map2 (+)
       (iterate_over_vertices \<lparr>coord_x = [0, 4], coord_y = [0, 0], coord_z = [- 3, - 1]\<rparr>
          \<lparr>x1 = [- 1], x2 = [1], y1 = [- 1], y2 = [1], z1 = [0], z2 = [2]\<rparr> [1] kernel_xz)
       (iterate_over_vertices \<lparr>coord_x = [0, 4], coord_y = [0, 0], coord_z = [- 3, - 1]\<rparr>
          \<lparr>x1 = [- 1], x2 = [1], y1 = [- 1], y2 = [1], z1 = [0], z2 = [2]\<rparr> [2] kernel_yz))
       (iterate_over_vertices \<lparr>coord_x = [0, 4], coord_y = [0, 0], coord_z = [- 3, - 1]\<rparr>
          \<lparr>x1 = [- 1], x2 = [1], y1 = [- 1], y2 = [1], z1 = [0], z2 = [2]\<rparr> [3] kernel_zz)"
proof -
  let ?cts = "\<lparr>GRAVITATIONAL_CONST = 2, SI2MGAL = 3, SI2EOTVOS = 5, CM = 7, T2NT = 11,
    T2MT = 13 :: real\<rparr>"
  let ?c = "\<lparr>coord_x = [0, 4], coord_y = [0, 0], coord_z = [- 3, - 1 :: real]\<rparr>"
  let ?ps = "\<lparr>x1 = [- 1], x2 = [1], y1 = [- 1], y2 = [1], z1 = [0], z2 = [2 :: real]\<rparr>"
  have v: "valid_input ?c ?ps 2 1"
    by (simp add: valid_input_def are_coordinates_def are_rectangular_prisms_def)
  have ca: "coordinates_array ?c = [[0, 4], [0, 0], [- 3, - 1]]"
    by (simp add: coordinates_array_def)
  have pa: "prisms_array ?ps = [[- 1, 1, - 1, 1, 0, 2]]"
    by (simp add: prisms_array_def)
  have z: "replicate 2 (0 :: real) = [0, 0]"
    by (simp add: numeral_2_eq_2)
  have l: "length [1000 :: real] = 1" "length [1 :: real] = 1" "length [2 :: real] = 1"
    "length [3 :: real] = 1"
    by simp_all
  have kg: "kernels_grav ''z'' = Some kernel_z"
    by (simp add: kernels_grav_def)
  have km: "kernels_mag ''z'' = Some (kernel_xz, kernel_yz, kernel_zz)"
    by (simp add: kernels_mag_def)
  have k: "field_kind_of ''z'' = Some Fz" "mag_kinds_of ''z'' = Some (Fxz, Fyz, Fzz)"
    by (simp_all add: field_kind_of_def mag_kinds_of_def)
  have g: "grav ?cts ?c ?ps [1000] ''z'' False
      = Inr (iterate_over_vertices ?c ?ps [1000] kernel_z)"
    by (simp add: grav_def valid_inputD(1,2) [OF v] is_array_def kg)
  have len: "length (iterate_over_vertices ?c ?ps [1000] kernel_z) = 2"
    by (rule length_iterate_over_vertices [OF v l(1)])
  have gn: "grav_numba ?cts ?c ?ps [1000] ''z'' False = Inl TypingError"
    by (simp add: grav_numba_closed [OF v l(1)] k)
  have jg: "jit_grav [[0, 4], [0, 0], [- 3, - 1]] [[- 1, 1, - 1, 1, 0, 2]] [1000] kernel_dz [0, 0]
      = iterate_over_vertices ?c ?ps [1000] kernel_z"
    using jit_grav_iterate_over_vertices [OF v l(1), where K = kernel_z]
    unfolding ca pa z by (simp add: compiled_kernels array_kernels)
  have m: "mag ?cts ?c ?ps [1] [2] [3] ''z'' False
      = Inr (map2 (+) (map2 (+) (iterate_over_vertices ?c ?ps [1] kernel_xz)
          (iterate_over_vertices ?c ?ps [2] kernel_yz)) (iterate_over_vertices ?c ?ps [3] kernel_zz))"
    by (simp add: mag_def valid_inputD(1,2) [OF v] is_array_def km Let_def)
  have mn: "mag_numba ?cts ?c ?ps [1] [2] [3] ''z'' False = Inl TypingError"
    by (simp add: mag_numba_closed [OF v l(2,3,4)] k)
  have jm: "jit_mag [[0, 4], [0, 0], [- 3, - 1]] [[- 1, 1, - 1, 1, 0, 2]] [1] [2] [3]
       kernel_dxz kernel_dyz kernel_dzz [0, 0]
      = map2 (+) (map2 (+) (iterate_over_vertices ?c ?ps [1] kernel_xz)
          (iterate_over_vertices ?c ?ps [2] kernel_yz)) (iterate_over_vertices ?c ?ps [3] kernel_zz)"
    using jit_mag_iterate_over_vertices [OF v l(2,3,4), where Kx = kernel_xz and Ky = kernel_yz
        and Kz = kernel_zz]
    unfolding ca pa z by (simp add: compiled_kernels array_kernels)
  show ?thesis
    using g len gn jg m mn jm by blast
qed

section \<open>The signed sum over the eight corners\<close>

text \<open>
  Claim C2. For every point and every prism of a valid input, the result for that pair is
  the sum over the eight corner index triples \<open>(i, j, k)\<close> of \<open>(- 1) ^ (i + j + k)\<close> times
  the kernel at the relative coordinates corner minus point, with \<open>R\<close> their Euclidean norm:
  this is the entry of the matrix that the corner loop of the array version builds, and
  what one step of the loop of the compiled version adds, weighted by the density, to the
  output at that point. Written out, the corner \<open>(1, 1, 1)\<close> has sign minus, \<open>(2, 1, 1)\<close>,
  \<open>(1, 2, 1)\<close> and \<open>(1, 1, 2)\<close> plus, \<open>(2, 2, 1)\<close>, \<open>(2, 1, 2)\<close> and \<open>(1, 2, 2)\<close> minus, and
  \<open>(2, 2, 2)\<close> plus.
\<close>

theorem corner_sum_signs:
  assumes v: "valid_input c ps D P" and d: "d < D" and p: "p < P" and o: "d < length out"
  shows "vertices_loop c ps K ! d ! p = corner_sum_spec K (point_at c d) (prism_at ps p)
    \<and> jit_grav_body (coordinates_array c) (prisms_array ps) density f d p out ! d =
        out ! d + density ! p * corner_sum_spec (\<lambda>X Y Z R. f X Y Z) (point_at c d) (prism_at ps p)
    \<and> corner_sum_spec K (px, py, pz) (a1, a2, b1, b2, c1, c2) =
        - K (a1 - px) (b1 - py) (c1 - pz) (sqrt ((a1 - px) ^ 2 + (b1 - py) ^ 2 + (c1 - pz) ^ 2))
        + K (a2 - px) (b1 - py) (c1 - pz) (sqrt ((a2 - px) ^ 2 + (b1 - py) ^ 2 + (c1 - pz) ^ 2))
        + K (a1 - px) (b2 - py) (c1 - pz) (sqrt ((a1 - px) ^ 2 + (b2 - py) ^ 2 + (c1 - pz) ^ 2))
        + K (a1 - px) (b1 - py) (c2 - pz) (sqrt ((a1 - px) ^ 2 + (b1 - py) ^ 2 + (c2 - pz) ^ 2))
        - K (a2 - px) (b2 - py) (c1 - pz) (sqrt ((a2 - px) ^ 2 + (b2 - py) ^ 2 + (c1 - pz) ^ 2))
        - K (a2 - px) (b1 - py) (c2 - pz) (sqrt ((a2 - px) ^ 2 + (b1 - py) ^ 2 + (c2 - pz) ^ 2))
        - K (a1 - px) (b2 - py) (c2 - pz) (sqrt ((a1 - px) ^ 2 + (b2 - py) ^ 2 + (c2 - pz) ^ 2))
        + K (a2 - px) (b2 - py) (c2 - pz) (sqrt ((a2 - px) ^ 2 + (b2 - py) ^ 2 + (c2 - pz) ^ 2))"
proof (intro conjI)
  show "vertices_loop c ps K ! d ! p = corner_sum_spec K (point_at c d) (prism_at ps p)"
    unfolding vertices_loop_tab [OF v] using d p by (simp add: tab_nth)
  have "p < length (x1 ps)"
    using p valid_inputD(6) [OF v] by simp
  then show "jit_grav_body (coordinates_array c) (prisms_array ps) density f d p out ! d =
      out ! d + density ! p * corner_sum_spec (\<lambda>X Y Z R. f X Y Z) (point_at c d) (prism_at ps p)"
    using o by (simp add: jit_grav_body_eq)
qed (rule corner_sum_spec_explicit)

theorem corner_sum_signs_witness:
  "vertices_loop \<lparr>coord_x = [0, 4], coord_y = [0, 0], coord_z = [- 3, - 1]\<rparr>
     \<lparr>x1 = [- 1], x2 = [1], y1 = [- 1], y2 = [1], z1 = [0], z2 = [2]\<rparr> kernel_z ! 1 ! 0
   = corner_sum_spec kernel_z (4, 0, - 1) (- 1, 1, - 1, 1, 0, 2)
   \<and> jit_grav_body [[0, 4], [0, 0], [- 3, - 1]] [[- 1, 1, - 1, 1, 0, 2]] [1000] kernel_dz 1 0 [0, 0] ! 1
   = 0 + 1000 * corner_sum_spec (\<lambda>X Y Z R. kernel_dz X Y Z) (4, 0, - 1) (- 1, 1, - 1, 1, 0, 2)"
proof -
  let ?c = "\<lparr>coord_x = [0, 4], coord_y = [0, 0], coord_z = [- 3, - 1 :: real]\<rparr>"
  let ?ps = "\<lparr>x1 = [- 1], x2 = [1], y1 = [- 1], y2 = [1], z1 = [0], z2 = [2 :: real]\<rparr>"
  have v: "valid_input ?c ?ps 2 1"
    by (simp add: valid_input_def are_coordinates_def are_rectangular_prisms_def)
  have ca: "coordinates_array ?c = [[0, 4], [0, 0], [- 3, - 1]]"
    by (simp add: coordinates_array_def)
  have pa: "prisms_array ?ps = [[- 1, 1, - 1, 1, 0, 2]]"
    by (simp add: prisms_array_def)
  have pt: "point_at ?c 1 = (4, 0, - 1)" "prism_at ?ps 0 = (- 1, 1, - 1, 1, 0, 2)"
    by (simp_all add: point_at_def prism_at_def)
  have i: "(1::nat) < 2" "(0::nat) < 1" "(1::nat) < length [0, 0 :: real]"
    by simp_all
  show ?thesis
    using corner_sum_signs [OF v i, where K = kernel_z and f = kernel_dz and density = "[1000]"]
    unfolding ca pa pt by simp
qed

section \<open>The magnetic field as a weighted sum of three corner sums\<close>



section \<open>Cutting a prism in two\<close>

lemma corner_sum_split:
  "corner_sum_spec K pt (a1, a2, b1, b2, c1, zm) + corner_sum_spec K pt (a1, a2, b1, b2, zm, c2)
   = corner_sum_spec K pt (a1, a2, b1, b2, c1, c2)"
  by (cases pt) (simp add: corner_sum_spec_explicit)

lemma times_scalar_add:
  "times_scalar (map2 (+) u w) k = map2 (+) (times_scalar u k) (times_scalar w k)"
  unfolding times_scalar_def
  by (induction u w rule: list_induct2') (simp_all add: distrib_right)

lemma scale_grav_add:
  "scale_grav cts field (map2 (+) u w) = map2 (+) (scale_grav cts field u) (scale_grav cts field w)"
  by (simp add: scale_grav_def Let_def times_scalar_add)

lemma scale_mag_add:
  "scale_mag cts field (map2 (+) u w) = map2 (+) (scale_mag cts field u) (scale_mag cts field w)"
  by (simp add: scale_mag_def Let_def times_scalar_add)

lemma valid_single:
  "are_coordinates c = Inr D \<Longrightarrow>
   valid_input c \<lparr>x1 = [a1], x2 = [a2], y1 = [b1], y2 = [b2], z1 = [c1], z2 = [c2]\<rparr> D 1"
  by (simp add: valid_input_def are_rectangular_prisms_def)

lemma prisms_array_single:
  "prisms_array \<lparr>x1 = [a1], x2 = [a2], y1 = [b1], y2 = [b2], z1 = [c1], z2 = [c2]\<rparr>
   = [[a1, a2, b1, b2, c1, c2]]"
  by (simp add: prisms_array_def)

lemma grav_spec_split:
  "map2 (+)
     (grav_spec k c \<lparr>x1 = [a1], x2 = [a2], y1 = [b1], y2 = [b2], z1 = [c1], z2 = [zm]\<rparr> [rho])
     (grav_spec k c \<lparr>x1 = [a1], x2 = [a2], y1 = [b1], y2 = [b2], z1 = [zm], z2 = [c2]\<rparr> [rho])
   = grav_spec k c \<lparr>x1 = [a1], x2 = [a2], y1 = [b1], y2 = [b2], z1 = [c1], z2 = [c2]\<rparr> [rho]"
  by (simp add: grav_spec_def map2_add_upt prism_at_def distrib_left [symmetric] corner_sum_split)

lemma mag_spec_split:
  "map2 (+)
     (mag_spec ks c \<lparr>x1 = [a1], x2 = [a2], y1 = [b1], y2 = [b2], z1 = [c1], z2 = [zm]\<rparr>
        [m1] [m2] [m3])
     (mag_spec ks c \<lparr>x1 = [a1], x2 = [a2], y1 = [b1], y2 = [b2], z1 = [zm], z2 = [c2]\<rparr>
        [m1] [m2] [m3])
   = mag_spec ks c \<lparr>x1 = [a1], x2 = [a2], y1 = [b1], y2 = [b2], z1 = [c1], z2 = [c2]\<rparr>
        [m1] [m2] [m3]"
proof -
  have "m1 * corner_sum_spec K1 pt (a1, a2, b1, b2, c1, zm)
      + m2 * corner_sum_spec K2 pt (a1, a2, b1, b2, c1, zm)
      + m3 * corner_sum_spec K3 pt (a1, a2, b1, b2, c1, zm)
      + (m1 * corner_sum_spec K1 pt (a1, a2, b1, b2, zm, c2)
      + m2 * corner_sum_spec K2 pt (a1, a2, b1, b2, zm, c2)
      + m3 * corner_sum_spec K3 pt (a1, a2, b1, b2, zm, c2))
      = m1 * corner_sum_spec K1 pt (a1, a2, b1, b2, c1, c2)
      + m2 * corner_sum_spec K2 pt (a1, a2, b1, b2, c1, c2)
      + m3 * corner_sum_spec K3 pt (a1, a2, b1, b2, c1, c2)" for K1 K2 K3 pt
    by (simp add: corner_sum_split [where ?c1.0 = c1 and zm = zm and ?c2.0 = c2, symmetric]
        distrib_left)
  then show ?thesis
    by (cases ks) (simp add: mag_spec_def map2_add_upt prism_at_def)
qed

lemma jit_grav_split:
  assumes c: "are_coordinates c = Inr D"
  shows "map2 (+)
      (jit_grav (coordinates_array c) [[a1, a2, b1, b2, c1, zm]] [rho] f (replicate D 0))
      (jit_grav (coordinates_array c) [[a1, a2, b1, b2, zm, c2]] [rho] f (replicate D 0))
    = jit_grav (coordinates_array c) [[a1, a2, b1, b2, c1, c2]] [rho] f (replicate D 0)"
proof -
  have D: "length (coord_x c) = D"
    using c by (simp add: are_coordinates_def split: if_splits)
  show ?thesis
    unfolding prisms_array_single [symmetric] D [symmetric] jit_grav_eq
    by (simp add: map2_add_upt assembled_spec_def prism_at_def distrib_left [symmetric]
        corner_sum_split)
qed

lemma jit_mag_split:
  assumes c: "are_coordinates c = Inr D"
  shows "map2 (+)
      (jit_mag (coordinates_array c) [[a1, a2, b1, b2, c1, zm]] [m1] [m2] [m3] fx fy fz
         (replicate D 0))
      (jit_mag (coordinates_array c) [[a1, a2, b1, b2, zm, c2]] [m1] [m2] [m3] fx fy fz
         (replicate D 0))
    = jit_mag (coordinates_array c) [[a1, a2, b1, b2, c1, c2]] [m1] [m2] [m3] fx fy fz
        (replicate D 0)"
proof -
  have D: "length (coord_x c) = D"
    using c by (simp add: are_coordinates_def split: if_splits)
  have s: "m * corner_sum_spec K pt (a1, a2, b1, b2, c1, zm)
      + m * corner_sum_spec K pt (a1, a2, b1, b2, zm, c2)
      = m * corner_sum_spec K pt (a1, a2, b1, b2, c1, c2)" for m K pt
    by (simp add: distrib_left [symmetric] corner_sum_split)
  have t: "x1' + x2' + x3' + (y1' + y2' + y3') = (x1' + y1') + (x2' + y2') + (x3' + y3')"
    for x1' x2' x3' y1' y2' y3' :: real
    by simp
  show ?thesis
    unfolding prisms_array_single [symmetric] D [symmetric] jit_mag_eq
    by (simp add: map2_add_upt assembled_spec_def prism_at_def t s)
qed

text \<open>
  Claim C6. Cut a prism \<open>(a1, a2, b1, b2, c1, c2)\<close> along \<open>z\<close> at \<open>zm\<close> into the prisms
  \<open>(a1, a2, b1, b2, c1, zm)\<close> and \<open>(a1, a2, b1, b2, zm, c2)\<close>. For every field name of
  gravity and of magnetics, scaled or not, the field of the undivided prism that \<^verbatim>\<open>grav\<close>
  and \<^verbatim>\<open>mag\<close> of the array version return is the sum, point by point, of the fields of
  the two parts; the same holds for what the loops \<^verbatim>\<open>jit_grav\<close> and \<^verbatim>\<open>jit_mag\<close> of the
  compiled version accumulate, with any kernel: the corner terms on the shared face cancel
  in the signed sum. In exact arithmetic this holds at every point and for every position
  of the cut, in particular for \<open>c1 \<le> zm \<le> c2\<close> and a point outside the prism.
\<close>

theorem split_prism_superposition:
  assumes c: "are_coordinates c = Inr D"
  shows "(field \<in> set grav_fields \<longrightarrow>
      (\<exists>u w. grav cts c \<lparr>x1 = [a1], x2 = [a2], y1 = [b1], y2 = [b2], z1 = [c1], z2 = [zm]\<rparr>
                [rho] field scale = Inr u
         \<and> grav cts c \<lparr>x1 = [a1], x2 = [a2], y1 = [b1], y2 = [b2], z1 = [zm], z2 = [c2]\<rparr>
                [rho] field scale = Inr w
         \<and> grav cts c \<lparr>x1 = [a1], x2 = [a2], y1 = [b1], y2 = [b2], z1 = [c1], z2 = [c2]\<rparr>
                [rho] field scale = Inr (map2 (+) u w)))
    \<and> (field \<in> set mag_fields \<longrightarrow>
      (\<exists>u w. mag cts c \<lparr>x1 = [a1], x2 = [a2], y1 = [b1], y2 = [b2], z1 = [c1], z2 = [zm]\<rparr>
                [m1] [m2] [m3] field scale = Inr u
         \<and> mag cts c \<lparr>x1 = [a1], x2 = [a2], y1 = [b1], y2 = [b2], z1 = [zm], z2 = [c2]\<rparr>
                [m1] [m2] [m3] field scale = Inr w
         \<and> mag cts c \<lparr>x1 = [a1], x2 = [a2], y1 = [b1], y2 = [b2], z1 = [c1], z2 = [c2]\<rparr>
                [m1] [m2] [m3] field scale = Inr (map2 (+) u w)))
    \<and> jit_grav (coordinates_array c) [[a1, a2, b1, b2, c1, c2]] [rho] f (replicate D 0)
        = map2 (+)
            (jit_grav (coordinates_array c) [[a1, a2, b1, b2, c1, zm]] [rho] f (replicate D 0))
            (jit_grav (coordinates_array c) [[a1, a2, b1, b2, zm, c2]] [rho] f (replicate D 0))
    \<and> jit_mag (coordinates_array c) [[a1, a2, b1, b2, c1, c2]] [m1] [m2] [m3] fx fy fz
          (replicate D 0)
        = map2 (+)
            (jit_mag (coordinates_array c) [[a1, a2, b1, b2, c1, zm]] [m1] [m2] [m3] fx fy fz
               (replicate D 0))
            (jit_mag (coordinates_array c) [[a1, a2, b1, b2, zm, c2]] [m1] [m2] [m3] fx fy fz
               (replicate D 0))
    \<and> corner_sum_spec K pt (a1, a2, b1, b2, c1, zm) + corner_sum_spec K pt (a1, a2, b1, b2, zm, c2)
        = corner_sum_spec K pt (a1, a2, b1, b2, c1, c2)"
proof (intro conjI impI)
  note v = valid_single [OF c]
  have l: "length [r :: real] = 1" for r by simp
  {
    assume "field \<in> set grav_fields"
    then obtain k where k: "field_kind_of field = Some k"
      using field_kind_of_dom [of field] by auto
    show "\<exists>u w. grav cts c \<lparr>x1 = [a1], x2 = [a2], y1 = [b1], y2 = [b2], z1 = [c1], z2 = [zm]\<rparr>
                [rho] field scale = Inr u
         \<and> grav cts c \<lparr>x1 = [a1], x2 = [a2], y1 = [b1], y2 = [b2], z1 = [zm], z2 = [c2]\<rparr>
                [rho] field scale = Inr w
         \<and> grav cts c \<lparr>x1 = [a1], x2 = [a2], y1 = [b1], y2 = [b2], z1 = [c1], z2 = [c2]\<rparr>
                [rho] field scale = Inr (map2 (+) u w)"
      unfolding grav_closed [OF v l] k
      by (simp add: grav_spec_split scale_grav_add [symmetric])
  }
  {
    assume "field \<in> set mag_fields"
    then obtain ks where k: "mag_kinds_of field = Some ks"
      using mag_kinds_of_dom [of field] by auto
    show "\<exists>u w. mag cts c \<lparr>x1 = [a1], x2 = [a2], y1 = [b1], y2 = [b2], z1 = [c1], z2 = [zm]\<rparr>
                [m1] [m2] [m3] field scale = Inr u
         \<and> mag cts c \<lparr>x1 = [a1], x2 = [a2], y1 = [b1], y2 = [b2], z1 = [zm], z2 = [c2]\<rparr>
                [m1] [m2] [m3] field scale = Inr w
         \<and> mag cts c \<lparr>x1 = [a1], x2 = [a2], y1 = [b1], y2 = [b2], z1 = [c1], z2 = [c2]\<rparr>
                [m1] [m2] [m3] field scale = Inr (map2 (+) u w)"
      unfolding mag_closed [OF v l l l] k
      by (simp add: mag_spec_split scale_mag_add [symmetric])
  }
  show "jit_grav (coordinates_array c) [[a1, a2, b1, b2, c1, c2]] [rho] f (replicate D 0)
        = map2 (+)
            (jit_grav (coordinates_array c) [[a1, a2, b1, b2, c1, zm]] [rho] f (replicate D 0))
            (jit_grav (coordinates_array c) [[a1, a2, b1, b2, zm, c2]] [rho] f (replicate D 0))"
    by (rule jit_grav_split [OF c, symmetric])
  show "jit_mag (coordinates_array c) [[a1, a2, b1, b2, c1, c2]] [m1] [m2] [m3] fx fy fz
          (replicate D 0)
        = map2 (+)
            (jit_mag (coordinates_array c) [[a1, a2, b1, b2, c1, zm]] [m1] [m2] [m3] fx fy fz
               (replicate D 0))
            (jit_mag (coordinates_array c) [[a1, a2, b1, b2, zm, c2]] [m1] [m2] [m3] fx fy fz
               (replicate D 0))"
    by (rule jit_mag_split [OF c, symmetric])
qed (rule corner_sum_split)

theorem split_prism_superposition_witness:
  "(0::real) \<le> 1 \<and> (1::real) \<le> 2
   \<and> (\<exists>u w. grav \<lparr>GRAVITATIONAL_CONST = 2, SI2MGAL = 3, SI2EOTVOS = 5, CM = 7, T2NT = 11, T2MT = 13\<rparr>
          \<lparr>coord_x = [4], coord_y = [0], coord_z = [- 1]\<rparr> \<lparr>x1 = [- 1], x2 = [1], y1 = [- 1], y2 = [1], z1 = [0], z2 = [1]\<rparr> [1000] ''z'' True = Inr u
      \<and> grav \<lparr>GRAVITATIONAL_CONST = 2, SI2MGAL = 3, SI2EOTVOS = 5, CM = 7, T2NT = 11, T2MT = 13\<rparr>
          \<lparr>coord_x = [4], coord_y = [0], coord_z = [- 1]\<rparr> \<lparr>x1 = [- 1], x2 = [1], y1 = [- 1], y2 = [1], z1 = [1], z2 = [2]\<rparr> [1000] ''z'' True = Inr w
      \<and> grav \<lparr>GRAVITATIONAL_CONST = 2, SI2MGAL = 3, SI2EOTVOS = 5, CM = 7, T2NT = 11, T2MT = 13\<rparr>
          \<lparr>coord_x = [4], coord_y = [0], coord_z = [- 1]\<rparr> \<lparr>x1 = [- 1], x2 = [1], y1 = [- 1], y2 = [1], z1 = [0], z2 = [2]\<rparr> [1000] ''z'' True = Inr (map2 (+) u w))
   \<and> (\<exists>u w. mag \<lparr>GRAVITATIONAL_CONST = 2, SI2MGAL = 3, SI2EOTVOS = 5, CM = 7, T2NT = 11, T2MT = 13\<rparr>
          \<lparr>coord_x = [4], coord_y = [0], coord_z = [- 1]\<rparr> \<lparr>x1 = [- 1], x2 = [1], y1 = [- 1], y2 = [1], z1 = [0], z2 = [1]\<rparr> [1] [2] [3] ''z'' True = Inr u
      \<and> mag \<lparr>GRAVITATIONAL_CONST = 2, SI2MGAL = 3, SI2EOTVOS = 5, CM = 7, T2NT = 11, T2MT = 13\<rparr>
          \<lparr>coord_x = [4], coord_y = [0], coord_z = [- 1]\<rparr> \<lparr>x1 = [- 1], x2 = [1], y1 = [- 1], y2 = [1], z1 = [1], z2 = [2]\<rparr> [1] [2] [3] ''z'' True = Inr w
      \<and> mag \<lparr>GRAVITATIONAL_CONST = 2, SI2MGAL = 3, SI2EOTVOS = 5, CM = 7, T2NT = 11, T2MT = 13\<rparr>
          \<lparr>coord_x = [4], coord_y = [0], coord_z = [- 1]\<rparr> \<lparr>x1 = [- 1], x2 = [1], y1 = [- 1], y2 = [1], z1 = [0], z2 = [2]\<rparr> [1] [2] [3] ''z'' True = Inr (map2 (+) u w))
   \<and> jit_grav [[4], [0], [- 1]] [[- 1, 1, - 1, 1, 0, 2]] [1000] kernel_dz [0]
       = map2 (+) (jit_grav [[4], [0], [- 1]] [[- 1, 1, - 1, 1, 0, 1]] [1000] kernel_dz [0])
           (jit_grav [[4], [0], [- 1]] [[- 1, 1, - 1, 1, 1, 2]] [1000] kernel_dz [0])"
proof -
  have c: "are_coordinates \<lparr>coord_x = [4], coord_y = [0], coord_z = [- 1 :: real]\<rparr> = Inr 1"
    by (simp add: are_coordinates_def)
  have ca: "coordinates_array \<lparr>coord_x = [4], coord_y = [0], coord_z = [- 1 :: real]\<rparr>
      = [[4], [0], [- 1]]"
    by (simp add: coordinates_array_def)
  have z: "replicate 1 (0 :: real) = [0]"
    by simp
  have f: "''z'' \<in> set grav_fields" "''z'' \<in> set mag_fields"
    by (simp_all add: grav_fields_def mag_fields_def)
  show ?thesis
    using f split_prism_superposition [OF c, where field = "''z''" and scale = True
        and ?a1.0 = "- 1" and ?a2.0 = 1 and ?b1.0 = "- 1" and ?b2.0 = 1 and ?c1.0 = 0 and zm = 1
        and ?c2.0 = 2 and rho = 1000 and ?m1.0 = 1 and ?m2.0 = 2 and ?m3.0 = 3 and f = kernel_dz
        and cts = "\<lparr>GRAVITATIONAL_CONST = 2, SI2MGAL = 3, SI2EOTVOS = 5, CM = 7, T2NT = 11, T2MT = 13\<rparr>"]
    unfolding ca z
    by (simp del: ex_simps)
qed

section \<open>Unknown field names\<close>

lemma field_kind_of_None: "field_kind_of field = None \<longleftrightarrow> field \<notin> set grav_fields"
  using field_kind_of_dom [of field] by blast

lemma mag_kinds_of_None: "mag_kinds_of field = None \<longleftrightarrow> field \<notin> set mag_fields"
  using mag_kinds_of_dom [of field] by blast

lemma grav_unknown_fails:
  assumes "field \<notin> set grav_fields"
  shows "\<exists>e. grav cts c ps density field scale = Inl e"
proof -
  have "kernels_grav field = None"
    using assms by (simp add: kernels_grav_kind field_kind_of_None)
  then show ?thesis
    by (simp add: grav_def split: sum.split)
qed

lemma mag_unknown_fails:
  assumes "field \<notin> set mag_fields"
  shows "\<exists>e. mag cts c ps mx my mz field scale = Inl e"
proof -
  have "kernels_mag field = None"
    using assms by (simp add: kernels_mag_kind mag_kinds_of_None)
  then show ?thesis
    by (simp add: mag_def split: sum.split)
qed

text \<open>
  Claim C7. When the field name is outside the supported set (ten names for gravity, four
  for magnetics), \<^verbatim>\<open>grav\<close> and \<^verbatim>\<open>mag\<close> return an error and no array, whatever the other
  arguments are; on an input that passes the validation that precedes the test of the field
  name, that error is the \<^verbatim>\<open>ValueError\<close> of the unknown field, raised before any kernel or
  corner sum is evaluated. When the field name is inside the set, a valid input gives an
  array and no error.
\<close>

theorem unknown_field_is_rejected:
  assumes v: "valid_input c ps D P"
    and l: "length density = P" "length mx = P" "length my = P" "length mz = P"
  shows "(field \<notin> set grav_fields \<longrightarrow>
        grav cts c ps density field scale =
          Inl (ValueError (''Gravitational field '' @ field @ '' not recognized''))
        \<and> (\<forall>c' ps' density'. \<exists>e. grav cts c' ps' density' field scale = Inl e))
    \<and> (field \<notin> set mag_fields \<longrightarrow>
        mag cts c ps mx my mz field scale =
          Inl (ValueError (''Magnetic field '' @ field @ '' not recognized''))
        \<and> (\<forall>c' ps' mx' my' mz'. \<exists>e. mag cts c' ps' mx' my' mz' field scale = Inl e))
    \<and> (field \<in> set grav_fields \<longrightarrow>
        (\<exists>out. grav cts c ps density field scale = Inr out))
    \<and> (field \<in> set mag_fields \<longrightarrow>
        (\<exists>out. mag cts c ps mx my mz field scale = Inr out))"
proof (intro conjI impI allI)
  assume n: "field \<notin> set grav_fields"
  then have k: "field_kind_of field = None"
    by (simp add: field_kind_of_None)
  show "grav cts c ps density field scale =
      Inl (ValueError (''Gravitational field '' @ field @ '' not recognized''))"
    by (simp add: grav_closed [OF v l(1)] k)
  show "\<exists>e. grav cts c' ps' density' field scale = Inl e" for c' ps' density'
    by (rule grav_unknown_fails [OF n])
next
  assume n: "field \<notin> set mag_fields"
  then have k: "mag_kinds_of field = None"
    by (simp add: mag_kinds_of_None)
  show "mag cts c ps mx my mz field scale =
      Inl (ValueError (''Magnetic field '' @ field @ '' not recognized''))"
    by (simp add: mag_closed [OF v l(2,3,4)] k)
  show "\<exists>e. mag cts c' ps' mx' my' mz' field scale = Inl e" for c' ps' mx' my' mz'
    by (rule mag_unknown_fails [OF n])
next
  assume "field \<in> set grav_fields"
  then obtain k where k: "field_kind_of field = Some k"
    using field_kind_of_dom [of field] by auto
  show "\<exists>out. grav cts c ps density field scale = Inr out"
    by (simp add: grav_closed [OF v l(1)] k)
next
  assume "field \<in> set mag_fields"
  then obtain ks where k: "mag_kinds_of field = Some ks"
    using mag_kinds_of_dom [of field] by auto
  show "\<exists>out. mag cts c ps mx my mz field scale = Inr out"
    by (simp add: mag_closed [OF v l(2,3,4)] k)
qed

theorem unknown_field_is_rejected_witness:
  "grav \<lparr>GRAVITATIONAL_CONST = 2, SI2MGAL = 3, SI2EOTVOS = 5, CM = 7, T2NT = 11, T2MT = 13\<rparr>
     \<lparr>coord_x = [4], coord_y = [0], coord_z = [- 1]\<rparr> \<lparr>x1 = [- 1], x2 = [1], y1 = [- 1], y2 = [1], z1 = [0], z2 = [2]\<rparr> [1000] ''gz'' True
   = Inl (ValueError ''Gravitational field gz not recognized'')
   \<and> mag \<lparr>GRAVITATIONAL_CONST = 2, SI2MGAL = 3, SI2EOTVOS = 5, CM = 7, T2NT = 11, T2MT = 13\<rparr>
     \<lparr>coord_x = [4], coord_y = [0], coord_z = [- 1]\<rparr> \<lparr>x1 = [- 1], x2 = [1], y1 = [- 1], y2 = [1], z1 = [0], z2 = [2]\<rparr> [1] [2] [3] ''xx'' True
   = Inl (ValueError ''Magnetic field xx not recognized'')
   \<and> (\<exists>out. grav \<lparr>GRAVITATIONAL_CONST = 2, SI2MGAL = 3, SI2EOTVOS = 5, CM = 7, T2NT = 11, T2MT = 13\<rparr>
     \<lparr>coord_x = [4], coord_y = [0], coord_z = [- 1]\<rparr> \<lparr>x1 = [- 1], x2 = [1], y1 = [- 1], y2 = [1], z1 = [0], z2 = [2]\<rparr> [1000] ''xx'' True = Inr out)
   \<and> (\<exists>out. mag \<lparr>GRAVITATIONAL_CONST = 2, SI2MGAL = 3, SI2EOTVOS = 5, CM = 7, T2NT = 11, T2MT = 13\<rparr>
     \<lparr>coord_x = [4], coord_y = [0], coord_z = [- 1]\<rparr> \<lparr>x1 = [- 1], x2 = [1], y1 = [- 1], y2 = [1], z1 = [0], z2 = [2]\<rparr> [1] [2] [3] ''potential'' True = Inr out)"
proof -
  let ?c = "\<lparr>coord_x = [4], coord_y = [0], coord_z = [- 1 :: real]\<rparr>"
  let ?ps = "\<lparr>x1 = [- 1], x2 = [1], y1 = [- 1], y2 = [1], z1 = [0], z2 = [2 :: real]\<rparr>"
  let ?cts = "\<lparr>GRAVITATIONAL_CONST = 2, SI2MGAL = 3, SI2EOTVOS = 5, CM = 7, T2NT = 11, T2MT = 13\<rparr>"
  have v: "valid_input ?c ?ps 1 1"
    by (simp add: valid_input_def are_coordinates_def are_rectangular_prisms_def)
  have l: "length [1000 :: real] = 1" "length [1 :: real] = 1" "length [2 :: real] = 1"
    "length [3 :: real] = 1"
    by simp_all
  have f: "''gz'' \<notin> set grav_fields" "''xx'' \<notin> set mag_fields" "''xx'' \<in> set grav_fields"
    "''potential'' \<in> set mag_fields"
    by (simp_all add: grav_fields_def mag_fields_def)
  note t = unknown_field_is_rejected [OF v l, where cts = ?cts and scale = True]
  show ?thesis
    using f t [where field = "''gz''"] t [where field = "''xx''"] t [where field = "''potential''"]
    by simp
qed

section \<open>Scaling and its inverse\<close>

text \<open>
  Claim C8. For every valid input and every gravity field name, the output of \<^verbatim>\<open>grav\<close>
  with scaling is the output without scaling times the constants applied for that field
  (the gravitational constant, times the conversion to mGal for \<open>x\<close>, \<open>y\<close>, \<open>z\<close>, or times
  the conversion to Eotvos for the six second derivatives), and in real arithmetic, with
  constants different from 0, dividing it by these constants gives the output without
  scaling back exactly. The scaling lines, which are the same in the two files, have this
  property on any array.
\<close>

theorem scaling_round_trip:
  assumes v: "valid_input c ps D P" and l: "length density = P"
    and f: "field \<in> set grav_fields"
    and n: "GRAVITATIONAL_CONST cts \<noteq> 0" "SI2MGAL cts \<noteq> 0" "SI2EOTVOS cts \<noteq> 0"
  shows "(\<exists>raw scaled.
      grav cts c ps density field False = Inr raw
      \<and> grav cts c ps density field True = Inr scaled
      \<and> scaled = map (\<lambda>v. v * grav_factor cts field) raw
      \<and> map (\<lambda>v. v / grav_factor cts field) scaled = raw)
    \<and> map (\<lambda>v. v / grav_factor cts field) (scale_grav cts field result) = result
    \<and> grav_factor cts ''potential'' = GRAVITATIONAL_CONST cts
    \<and> grav_factor cts ''x'' = GRAVITATIONAL_CONST cts * SI2MGAL cts
    \<and> grav_factor cts ''y'' = GRAVITATIONAL_CONST cts * SI2MGAL cts
    \<and> grav_factor cts ''z'' = GRAVITATIONAL_CONST cts * SI2MGAL cts
    \<and> grav_factor cts ''xx'' = GRAVITATIONAL_CONST cts * SI2EOTVOS cts
    \<and> grav_factor cts ''xy'' = GRAVITATIONAL_CONST cts * SI2EOTVOS cts
    \<and> grav_factor cts ''xz'' = GRAVITATIONAL_CONST cts * SI2EOTVOS cts
    \<and> grav_factor cts ''yy'' = GRAVITATIONAL_CONST cts * SI2EOTVOS cts
    \<and> grav_factor cts ''yz'' = GRAVITATIONAL_CONST cts * SI2EOTVOS cts
    \<and> grav_factor cts ''zz'' = GRAVITATIONAL_CONST cts * SI2EOTVOS cts"
proof -
  obtain k where k: "field_kind_of field = Some k"
    using f field_kind_of_dom [of field] by auto
  have z: "grav_factor cts field \<noteq> 0"
    by (rule grav_factor_nonzero [OF n])
  have r: "map (\<lambda>v. v / grav_factor cts field) (scale_grav cts field raw) = raw" for raw
    using z by (simp add: scale_grav_factor comp_def)
  have "\<exists>raw scaled.
      grav cts c ps density field False = Inr raw
      \<and> grav cts c ps density field True = Inr scaled
      \<and> scaled = map (\<lambda>v. v * grav_factor cts field) raw
      \<and> map (\<lambda>v. v / grav_factor cts field) scaled = raw"
    using r by (simp add: grav_closed [OF v l] k scale_grav_factor)
  then show ?thesis
    using r by (simp add: grav_factor_def)
qed

theorem scaling_round_trip_witness:
  "\<exists>raw scaled.
      grav \<lparr>GRAVITATIONAL_CONST = 2, SI2MGAL = 3, SI2EOTVOS = 5, CM = 7, T2NT = 11, T2MT = 13\<rparr>
        \<lparr>coord_x = [4], coord_y = [0], coord_z = [- 1]\<rparr> \<lparr>x1 = [- 1], x2 = [1], y1 = [- 1], y2 = [1], z1 = [0], z2 = [2]\<rparr> [1000] ''z'' False = Inr raw
      \<and> grav \<lparr>GRAVITATIONAL_CONST = 2, SI2MGAL = 3, SI2EOTVOS = 5, CM = 7, T2NT = 11, T2MT = 13\<rparr>
        \<lparr>coord_x = [4], coord_y = [0], coord_z = [- 1]\<rparr> \<lparr>x1 = [- 1], x2 = [1], y1 = [- 1], y2 = [1], z1 = [0], z2 = [2]\<rparr> [1000] ''z'' True = Inr scaled
      \<and> scaled = map (\<lambda>v. v * (2 * 3)) raw
      \<and> map (\<lambda>v. v / (2 * 3)) scaled = raw"
proof -
  let ?c = "\<lparr>coord_x = [4], coord_y = [0], coord_z = [- 1 :: real]\<rparr>"
  let ?ps = "\<lparr>x1 = [- 1], x2 = [1], y1 = [- 1], y2 = [1], z1 = [0], z2 = [2 :: real]\<rparr>"
  let ?cts = "\<lparr>GRAVITATIONAL_CONST = 2, SI2MGAL = 3, SI2EOTVOS = 5, CM = 7, T2NT = 11, T2MT = 13\<rparr>"
  have v: "valid_input ?c ?ps 1 1"
    by (simp add: valid_input_def are_coordinates_def are_rectangular_prisms_def)
  have l: "length [1000 :: real] = 1"
    by simp
  have f: "''z'' \<in> set grav_fields"
    by (simp add: grav_fields_def)
  have n: "GRAVITATIONAL_CONST ?cts \<noteq> 0" "SI2MGAL ?cts \<noteq> 0" "SI2EOTVOS ?cts \<noteq> 0"
    by simp_all
  have g: "grav_factor ?cts ''z'' = 2 * 3"
    by (simp add: grav_factor_def)
  show ?thesis
    using scaling_round_trip [OF v l f n] unfolding g by blast
qed

text \<open>
  Claim C8, in double precision. The arrays of \<^verbatim>\<open>grav\<close> hold double-precision numbers, and
  there the quotient is not always the output without scaling. Take the unscaled array
  \<open>[178.29039381196043]\<close>, which is \<open>6273035555744406 / 2 ^ 45\<close>, the field \<open>z\<close>, the
  gravitational constant 2 and the conversion to mGal 3. The scaling step rounds the product
  by 6; the division by 6, and also the division by 3 followed by the division by 2, give
  \<open>6273035555744405 / 2 ^ 45\<close>, one unit in the last place below the unscaled number.
\<close>

theorem scaling_round_trip_not_exact:
  "scale_grav_float64
     ((4503599627370496, - 51), (6755399441055744, - 51), (5629499534213120, - 50)) ''z''
     [(6273035555744406, - 45)] = [(4704776666808304, - 42)]
   \<and> fl_mul (4503599627370496, - 51) (6755399441055744, - 51) = (6755399441055744, - 50)
   \<and> fl_div (4704776666808304, - 42) (6755399441055744, - 50) = Some (6273035555744405, - 45)
   \<and> fl_div (4704776666808304, - 42) (6755399441055744, - 50) \<noteq> Some (6273035555744406, - 45)
   \<and> fl_div (4704776666808304, - 42) (6755399441055744, - 51) = Some (6273035555744405, - 44)
   \<and> fl_div (6273035555744405, - 44) (4503599627370496, - 51) = Some (6273035555744405, - 45)
   \<and> fl_div (6273035555744405, - 44) (4503599627370496, - 51) \<noteq> Some (6273035555744406, - 45)
   \<and> float64_value (4503599627370496, - 51) = 2
   \<and> float64_value (6755399441055744, - 51) = 3
   \<and> float64_value (5629499534213120, - 50) = 5
   \<and> float64_value (6273035555744406, - 45) = 6273035555744406 / 2 ^ 45"
proof -
  have s: "scale_grav_float64
     ((4503599627370496, - 51), (6755399441055744, - 51), (5629499534213120, - 50)) ''z''
     [(6273035555744406, - 45)] = [(4704776666808304, - 42)]"
    by (simp add: fl_mul_def fl_div_def round_to_nearest_even_def Let_def
        scale_grav_float64_def times_scalar_float64_def)
  have m: "fl_mul (4503599627370496, - 51) (6755399441055744, - 51) = (6755399441055744, - 50)"
    by (simp add: fl_mul_def fl_div_def round_to_nearest_even_def Let_def
        scale_grav_float64_def times_scalar_float64_def)
  have d1: "fl_div (4704776666808304, - 42) (6755399441055744, - 50)
      = Some (6273035555744405, - 45)"
    by (simp add: fl_mul_def fl_div_def round_to_nearest_even_def Let_def
        scale_grav_float64_def times_scalar_float64_def)
  have d2: "fl_div (4704776666808304, - 42) (6755399441055744, - 51)
      = Some (6273035555744405, - 44)"
    by (simp add: fl_mul_def fl_div_def round_to_nearest_even_def Let_def
        scale_grav_float64_def times_scalar_float64_def)
  have d3: "fl_div (6273035555744405, - 44) (4503599627370496, - 51)
      = Some (6273035555744405, - 45)"
    by (simp add: fl_mul_def fl_div_def round_to_nearest_even_def Let_def
        scale_grav_float64_def times_scalar_float64_def)
  have val: "float64_value (4503599627370496, - 51) = 2"
    "float64_value (6755399441055744, - 51) = 3"
    "float64_value (5629499534213120, - 50) = 5"
    "float64_value (6273035555744406, - 45) = 6273035555744406 / 2 ^ 45"
    by (simp_all add: float64_value_def)
  show ?thesis
    unfolding s m d1 d2 d3 val by simp
qed

section \<open>Prisms of zero thickness\<close>

lemma corner_sum_degenerate:
  assumes "a1 = a2 \<or> b1 = b2 \<or> c1 = c2"
  shows "corner_sum_spec K pt (a1, a2, b1, b2, c1, c2) = 0"
  using assms by (cases pt) (auto simp: corner_sum_spec_explicit)

lemma degenerate_term:
  assumes "x1 ps ! p = x2 ps ! p \<or> y1 ps ! p = y2 ps ! p \<or> z1 ps ! p = z2 ps ! p"
  shows "corner_sum_spec K pt (prism_at ps p) = 0"
  unfolding prism_at_def by (rule corner_sum_degenerate [OF assms])

lemma grav_spec_degenerate:
  assumes "x1 ps ! p = x2 ps ! p \<or> y1 ps ! p = y2 ps ! p \<or> z1 ps ! p = z2 ps ! p"
  shows "grav_spec k c ps (density[p := r]) = grav_spec k c ps density"
proof -
  have h: "density[p := r] ! q * corner_sum_spec K pt (prism_at ps q)
      = density ! q * corner_sum_spec K pt (prism_at ps q)" for q K pt
    by (cases "q = p") (simp_all add: degenerate_term [OF assms])
  show ?thesis
    unfolding grav_spec_def by (simp only: h)
qed

lemma mag_spec_degenerate:
  assumes "x1 ps ! p = x2 ps ! p \<or> y1 ps ! p = y2 ps ! p \<or> z1 ps ! p = z2 ps ! p"
  shows "mag_spec ks c ps (mx[p := r1]) (my[p := r2]) (mz[p := r3]) = mag_spec ks c ps mx my mz"
proof -
  have h: "sigma[p := r] ! q * corner_sum_spec K pt (prism_at ps q)
      = sigma ! q * corner_sum_spec K pt (prism_at ps q)" for q K pt r and sigma :: "real list"
    by (cases "q = p") (simp_all add: degenerate_term [OF assms])
  show ?thesis
    unfolding mag_spec_def by (simp only: h)
qed

lemma assembled_spec_degenerate:
  assumes "x1 ps ! p = x2 ps ! p \<or> y1 ps ! p = y2 ps ! p \<or> z1 ps ! p = z2 ps ! p"
  shows "assembled_spec K c ps (sigma[p := r]) = assembled_spec K c ps sigma"
proof -
  have h: "sigma[p := r] ! q * corner_sum_spec K pt (prism_at ps q)
      = sigma ! q * corner_sum_spec K pt (prism_at ps q)" for q pt
    by (cases "q = p") (simp_all add: degenerate_term [OF assms])
  show ?thesis
    unfolding assembled_spec_def [abs_def] by (simp only: h)
qed

lemma jit_grav_degenerate:
  assumes v: "valid_input c ps D P"
    and g: "x1 ps ! p = x2 ps ! p \<or> y1 ps ! p = y2 ps ! p \<or> z1 ps ! p = z2 ps ! p"
  shows "jit_grav (coordinates_array c) (prisms_array ps) (density[p := r]) f (replicate D 0)
      = jit_grav (coordinates_array c) (prisms_array ps) density f (replicate D 0)"
  unfolding valid_inputD(3) [OF v, symmetric] jit_grav_eq
  by (simp only: assembled_spec_degenerate [OF g])

lemma jit_mag_degenerate:
  assumes v: "valid_input c ps D P"
    and g: "x1 ps ! p = x2 ps ! p \<or> y1 ps ! p = y2 ps ! p \<or> z1 ps ! p = z2 ps ! p"
  shows "jit_mag (coordinates_array c) (prisms_array ps) (mx[p := r1]) (my[p := r2])
        (mz[p := r3]) fx fy fz (replicate D 0)
      = jit_mag (coordinates_array c) (prisms_array ps) mx my mz fx fy fz (replicate D 0)"
  unfolding valid_inputD(3) [OF v, symmetric] jit_mag_eq
  by (simp only: assembled_spec_degenerate [OF g])

text \<open>
  Claim C9. For a prism of zero thickness along one axis (\<open>x1 = x2\<close>, or \<open>y1 = y2\<close>, or
  \<open>z1 = z2\<close>) and any point, the signed sum over the eight corners is exactly 0 for every
  kernel: the two corners on the collapsed axis coincide and carry opposite signs. So the
  entry of that prism in the matrix of the array version is 0, the step of the compiled
  loops for that prism leaves the output unchanged, and the outputs of \<^verbatim>\<open>grav\<close> and \<^verbatim>\<open>mag\<close>
  and of the loops \<^verbatim>\<open>jit_grav\<close> and \<^verbatim>\<open>jit_mag\<close> do not depend on the density or
  magnetization given to that prism.
\<close>

theorem degenerate_prism_contributes_nothing:
  assumes v: "valid_input c ps D P" and d: "d < D" and p: "p < P"
    and l: "length density = P" "length mx = P" "length my = P" "length mz = P"
    and o: "d < length out"
    and g: "x1 ps ! p = x2 ps ! p \<or> y1 ps ! p = y2 ps ! p \<or> z1 ps ! p = z2 ps ! p"
  shows "corner_sum_spec K (point_at c d) (prism_at ps p) = 0
    \<and> vertices_loop c ps K ! d ! p = 0
    \<and> jit_grav_body (coordinates_array c) (prisms_array ps) density f d p out = out
    \<and> jit_mag_body (coordinates_array c) (prisms_array ps) mx my mz fx fy fz d p out = out
    \<and> grav cts c ps (density[p := r]) field scale = grav cts c ps density field scale
    \<and> grav_numba cts c ps (density[p := r]) field scale
        = grav_numba cts c ps density field scale
    \<and> jit_grav (coordinates_array c) (prisms_array ps) (density[p := r]) f (replicate D 0)
        = jit_grav (coordinates_array c) (prisms_array ps) density f (replicate D 0)
    \<and> mag cts c ps (mx[p := r1]) (my[p := r2]) (mz[p := r3]) field scale
        = mag cts c ps mx my mz field scale
    \<and> mag_numba cts c ps (mx[p := r1]) (my[p := r2]) (mz[p := r3]) field scale
        = mag_numba cts c ps mx my mz field scale
    \<and> jit_mag (coordinates_array c) (prisms_array ps) (mx[p := r1]) (my[p := r2])
          (mz[p := r3]) fx fy fz (replicate D 0)
        = jit_mag (coordinates_array c) (prisms_array ps) mx my mz fx fy fz (replicate D 0)"
proof (intro conjI)
  have pl: "p < length (x1 ps)"
    using p valid_inputD(6) [OF v] by simp
  show "corner_sum_spec K (point_at c d) (prism_at ps p) = 0"
    by (rule degenerate_term [OF g])
  show "vertices_loop c ps K ! d ! p = 0"
    unfolding vertices_loop_tab [OF v] using d p by (simp add: tab_nth degenerate_term [OF g])
  show "jit_grav_body (coordinates_array c) (prisms_array ps) density f d p out = out"
    by (simp add: jit_grav_body_eq [OF pl] degenerate_term [OF g])
  show "jit_mag_body (coordinates_array c) (prisms_array ps) mx my mz fx fy fz d p out = out"
    by (simp add: jit_mag_body_eq [OF pl o] degenerate_term [OF g])
  have l': "length (density[p := r]) = P" "length (mx[p := r1]) = P" "length (my[p := r2]) = P"
    "length (mz[p := r3]) = P"
    using l by simp_all
  show "grav cts c ps (density[p := r]) field scale = grav cts c ps density field scale"
    by (simp add: grav_closed [OF v l(1)] grav_closed [OF v l'(1)] grav_spec_degenerate [OF g] split: option.split)
  show "grav_numba cts c ps (density[p := r]) field scale
        = grav_numba cts c ps density field scale"
    by (simp only: grav_numba_closed [OF v l(1)] grav_numba_closed [OF v l'(1)])
  show "jit_grav (coordinates_array c) (prisms_array ps) (density[p := r]) f (replicate D 0)
        = jit_grav (coordinates_array c) (prisms_array ps) density f (replicate D 0)"
    by (rule jit_grav_degenerate [OF v g])
  show "mag cts c ps (mx[p := r1]) (my[p := r2]) (mz[p := r3]) field scale
        = mag cts c ps mx my mz field scale"
    by (simp add: mag_closed [OF v l(2,3,4)] mag_closed [OF v l'(2,3,4)]
        mag_spec_degenerate [OF g] split: option.split)
  show "mag_numba cts c ps (mx[p := r1]) (my[p := r2]) (mz[p := r3]) field scale
        = mag_numba cts c ps mx my mz field scale"
    by (simp only: mag_numba_closed [OF v l(2,3,4)] mag_numba_closed [OF v l'(2,3,4)])
  show "jit_mag (coordinates_array c) (prisms_array ps) (mx[p := r1]) (my[p := r2])
          (mz[p := r3]) fx fy fz (replicate D 0)
        = jit_mag (coordinates_array c) (prisms_array ps) mx my mz fx fy fz (replicate D 0)"
    by (rule jit_mag_degenerate [OF v g])
qed

theorem degenerate_prism_contributes_nothing_witness:
  "corner_sum_spec kernel_z (4, 0, - 1) (2, 3, 0, 5, 1, 1) = 0
   \<and> vertices_loop \<lparr>coord_x = [4], coord_y = [0], coord_z = [- 1]\<rparr>
       \<lparr>x1 = [- 1, 2], x2 = [1, 3], y1 = [- 1, 0], y2 = [1, 5], z1 = [0, 1], z2 = [2, 1]\<rparr> kernel_z ! 0 ! 1 = 0
   \<and> jit_grav_body [[4], [0], [- 1]] [[- 1, 1, - 1, 1, 0, 2], [2, 3, 0, 5, 1, 1]] [1000, 500]
       kernel_dz 0 1 [8] = [8]
   \<and> grav \<lparr>GRAVITATIONAL_CONST = 2, SI2MGAL = 3, SI2EOTVOS = 5, CM = 7, T2NT = 11, T2MT = 13\<rparr>
       \<lparr>coord_x = [4], coord_y = [0], coord_z = [- 1]\<rparr>
       \<lparr>x1 = [- 1, 2], x2 = [1, 3], y1 = [- 1, 0], y2 = [1, 5], z1 = [0, 1], z2 = [2, 1]\<rparr> [1000, 77] ''z'' True
     = grav \<lparr>GRAVITATIONAL_CONST = 2, SI2MGAL = 3, SI2EOTVOS = 5, CM = 7, T2NT = 11, T2MT = 13\<rparr>
       \<lparr>coord_x = [4], coord_y = [0], coord_z = [- 1]\<rparr>
       \<lparr>x1 = [- 1, 2], x2 = [1, 3], y1 = [- 1, 0], y2 = [1, 5], z1 = [0, 1], z2 = [2, 1]\<rparr> [1000, 500] ''z'' True
   \<and> jit_grav [[4], [0], [- 1]] [[- 1, 1, - 1, 1, 0, 2], [2, 3, 0, 5, 1, 1]] [1000, 77]
       kernel_dz [0]
     = jit_grav [[4], [0], [- 1]] [[- 1, 1, - 1, 1, 0, 2], [2, 3, 0, 5, 1, 1]] [1000, 500]
       kernel_dz [0]"
proof -
  let ?c = "\<lparr>coord_x = [4], coord_y = [0], coord_z = [- 1 :: real]\<rparr>"
  let ?ps = "\<lparr>x1 = [- 1, 2], x2 = [1, 3], y1 = [- 1, 0], y2 = [1, 5], z1 = [0, 1],
    z2 = [2, 1 :: real]\<rparr>"
  let ?cts = "\<lparr>GRAVITATIONAL_CONST = 2, SI2MGAL = 3, SI2EOTVOS = 5, CM = 7, T2NT = 11, T2MT = 13\<rparr>"
  have v: "valid_input ?c ?ps 1 2"
    by (simp add: valid_input_def are_coordinates_def are_rectangular_prisms_def)
  have i: "(0::nat) < 1" "(1::nat) < 2"
    by simp_all
  have l: "length [1000, 500 :: real] = 2" "length [1, 1 :: real] = 2" "length [2, 2 :: real] = 2"
    "length [3, 3 :: real] = 2"
    by simp_all
  have o: "0 < length [8 :: real]"
    by simp
  have g: "x1 ?ps ! 1 = x2 ?ps ! 1 \<or> y1 ?ps ! 1 = y2 ?ps ! 1 \<or> z1 ?ps ! 1 = z2 ?ps ! 1"
    by simp
  have ca: "coordinates_array ?c = [[4], [0], [- 1]]"
    by (simp add: coordinates_array_def)
  have pa: "prisms_array ?ps = [[- 1, 1, - 1, 1, 0, 2], [2, 3, 0, 5, 1, 1]]"
    by (simp add: prisms_array_def upt_rec)
  have pt: "point_at ?c 0 = (4, 0, - 1)" "prism_at ?ps 1 = (2, 3, 0, 5, 1, 1)"
    by (simp_all add: point_at_def prism_at_def)
  have u: "[1000, 500 :: real][1 := 77] = [1000, 77]"
    by simp
  have z: "replicate 1 (0 :: real) = [0]"
    by simp
  show ?thesis
    using degenerate_prism_contributes_nothing [OF v i l o g, where K = kernel_z
        and f = kernel_dz and cts = ?cts and field = "''z''" and scale = True and r = 77]
    unfolding ca pa pt u z by blast
qed

section \<open>The sign of the scaling\<close>

lemma grav_factor_positive:
  "0 < GRAVITATIONAL_CONST cts \<Longrightarrow> 0 < SI2MGAL cts \<Longrightarrow> 0 < SI2EOTVOS cts \<Longrightarrow>
   0 < grav_factor cts field"
  by (simp add: grav_factor_def)

lemma mag_factor_component:
  "field \<in> set [''x'', ''y'', ''z''] \<Longrightarrow> mag_factor cts field = CM cts * T2NT cts"
  by (auto simp: mag_factor_def)

text \<open>
  Claim C10. For the field \<^verbatim>\<open>potential\<close> of \<^verbatim>\<open>mag\<close>, the scaled result is the unscaled
  result times \<open>- (CM * T2MT)\<close>: scaling changes the sign of the magnetic scalar potential.
  For the fields \<open>x\<close>, \<open>y\<close>, \<open>z\<close> of \<^verbatim>\<open>mag\<close> and for every field of \<^verbatim>\<open>grav\<close>, the scaled
  result is the unscaled result times a product of the constants, which is positive when
  the constants are: the sign is kept. The scaling lines, which are the same in the two
  files, multiply any array by these factors.
\<close>

theorem scaling_signs:
  assumes v: "valid_input c ps D P"
    and l: "length density = P" "length mx = P" "length my = P" "length mz = P"
    and pos: "0 < GRAVITATIONAL_CONST cts" "0 < SI2MGAL cts" "0 < SI2EOTVOS cts"
      "0 < CM cts" "0 < T2NT cts" "0 < T2MT cts"
  shows "(\<exists>raw. mag cts c ps mx my mz ''potential'' False = Inr raw
        \<and> mag cts c ps mx my mz ''potential'' True =
            Inr (map (\<lambda>v. v * (- (CM cts * T2MT cts))) raw))
    \<and> - (CM cts * T2MT cts) < 0
    \<and> (field \<in> set [''x'', ''y'', ''z''] \<longrightarrow>
        (\<exists>raw. mag cts c ps mx my mz field False = Inr raw
          \<and> mag cts c ps mx my mz field True = Inr (map (\<lambda>v. v * (CM cts * T2NT cts)) raw))
        \<and> 0 < CM cts * T2NT cts)
    \<and> (field \<in> set grav_fields \<longrightarrow>
        (\<exists>raw. grav cts c ps density field False = Inr raw
          \<and> grav cts c ps density field True = Inr (map (\<lambda>v. v * grav_factor cts field) raw))
        \<and> 0 < grav_factor cts field)
    \<and> scale_mag cts ''potential'' result = map (\<lambda>v. v * (- (CM cts * T2MT cts))) result
    \<and> (field \<in> set [''x'', ''y'', ''z''] \<longrightarrow>
        scale_mag cts field result = map (\<lambda>v. v * (CM cts * T2NT cts)) result)
    \<and> scale_grav cts field result = map (\<lambda>v. v * grav_factor cts field) result"
proof (intro conjI impI)
  have p: "mag_kinds_of ''potential'' = Some (Fx, Fy, Fz)"
    by (simp add: mag_kinds_of_def)
  have mp: "mag_factor cts ''potential'' = - (CM cts * T2MT cts)"
    by (simp add: mag_factor_def)
  show "\<exists>raw. mag cts c ps mx my mz ''potential'' False = Inr raw
        \<and> mag cts c ps mx my mz ''potential'' True =
            Inr (map (\<lambda>v. v * (- (CM cts * T2MT cts))) raw)"
    by (simp add: mag_closed [OF v l(2,3,4)] p scale_mag_factor mp)
  show "- (CM cts * T2MT cts) < 0"
    using pos by simp
  show "0 < CM cts * T2NT cts"
    using pos by simp
  show "0 < grav_factor cts field"
    by (rule grav_factor_positive [OF pos(1,2,3)])
  show "scale_mag cts ''potential'' result = map (\<lambda>v. v * (- (CM cts * T2MT cts))) result"
    by (simp add: scale_mag_factor mp)
  show "scale_grav cts field result = map (\<lambda>v. v * grav_factor cts field) result"
    by (rule scale_grav_factor)
next
  assume f: "field \<in> set [''x'', ''y'', ''z'']"
  then have "field \<in> set mag_fields"
    by (auto simp: mag_fields_def)
  then obtain ks where k: "mag_kinds_of field = Some ks"
    using mag_kinds_of_dom [of field] by auto
  show "\<exists>raw. mag cts c ps mx my mz field False = Inr raw
          \<and> mag cts c ps mx my mz field True = Inr (map (\<lambda>v. v * (CM cts * T2NT cts)) raw)"
    by (simp add: mag_closed [OF v l(2,3,4)] k scale_mag_factor mag_factor_component [OF f])
next
  assume f: "field \<in> set [''x'', ''y'', ''z'']"
  show "scale_mag cts field result = map (\<lambda>v. v * (CM cts * T2NT cts)) result"
    by (simp add: scale_mag_factor mag_factor_component [OF f])
next
  assume "field \<in> set grav_fields"
  then obtain k where k: "field_kind_of field = Some k"
    using field_kind_of_dom [of field] by auto
  show "\<exists>raw. grav cts c ps density field False = Inr raw
          \<and> grav cts c ps density field True = Inr (map (\<lambda>v. v * grav_factor cts field) raw)"
    by (simp add: grav_closed [OF v l(1)] k scale_grav_factor)
qed

theorem scaling_signs_witness:
  "(\<exists>raw. mag \<lparr>GRAVITATIONAL_CONST = 2, SI2MGAL = 3, SI2EOTVOS = 5, CM = 7, T2NT = 11, T2MT = 13\<rparr>
        \<lparr>coord_x = [4], coord_y = [0], coord_z = [- 1]\<rparr> \<lparr>x1 = [- 1], x2 = [1], y1 = [- 1], y2 = [1], z1 = [0], z2 = [2]\<rparr> [1] [2] [3] ''potential'' False = Inr raw
      \<and> mag \<lparr>GRAVITATIONAL_CONST = 2, SI2MGAL = 3, SI2EOTVOS = 5, CM = 7, T2NT = 11, T2MT = 13\<rparr>
        \<lparr>coord_x = [4], coord_y = [0], coord_z = [- 1]\<rparr> \<lparr>x1 = [- 1], x2 = [1], y1 = [- 1], y2 = [1], z1 = [0], z2 = [2]\<rparr> [1] [2] [3] ''potential'' True = Inr (map (\<lambda>v. v * (- (7 * 13))) raw))
   \<and> (\<exists>raw. mag \<lparr>GRAVITATIONAL_CONST = 2, SI2MGAL = 3, SI2EOTVOS = 5, CM = 7, T2NT = 11, T2MT = 13\<rparr>
        \<lparr>coord_x = [4], coord_y = [0], coord_z = [- 1]\<rparr> \<lparr>x1 = [- 1], x2 = [1], y1 = [- 1], y2 = [1], z1 = [0], z2 = [2]\<rparr> [1] [2] [3] ''x'' False = Inr raw
      \<and> mag \<lparr>GRAVITATIONAL_CONST = 2, SI2MGAL = 3, SI2EOTVOS = 5, CM = 7, T2NT = 11, T2MT = 13\<rparr>
        \<lparr>coord_x = [4], coord_y = [0], coord_z = [- 1]\<rparr> \<lparr>x1 = [- 1], x2 = [1], y1 = [- 1], y2 = [1], z1 = [0], z2 = [2]\<rparr> [1] [2] [3] ''x'' True = Inr (map (\<lambda>v. v * (7 * 11)) raw))
   \<and> (\<exists>raw. grav \<lparr>GRAVITATIONAL_CONST = 2, SI2MGAL = 3, SI2EOTVOS = 5, CM = 7, T2NT = 11, T2MT = 13\<rparr>
        \<lparr>coord_x = [4], coord_y = [0], coord_z = [- 1]\<rparr> \<lparr>x1 = [- 1], x2 = [1], y1 = [- 1], y2 = [1], z1 = [0], z2 = [2]\<rparr> [1000] ''x'' False = Inr raw
      \<and> grav \<lparr>GRAVITATIONAL_CONST = 2, SI2MGAL = 3, SI2EOTVOS = 5, CM = 7, T2NT = 11, T2MT = 13\<rparr>
        \<lparr>coord_x = [4], coord_y = [0], coord_z = [- 1]\<rparr> \<lparr>x1 = [- 1], x2 = [1], y1 = [- 1], y2 = [1], z1 = [0], z2 = [2]\<rparr> [1000] ''x'' True = Inr (map (\<lambda>v. v * (2 * 3)) raw))"
proof -
  let ?c = "\<lparr>coord_x = [4], coord_y = [0], coord_z = [- 1 :: real]\<rparr>"
  let ?ps = "\<lparr>x1 = [- 1], x2 = [1], y1 = [- 1], y2 = [1], z1 = [0], z2 = [2 :: real]\<rparr>"
  let ?cts = "\<lparr>GRAVITATIONAL_CONST = 2, SI2MGAL = 3, SI2EOTVOS = 5, CM = 7, T2NT = 11, T2MT = 13\<rparr>"
  have v: "valid_input ?c ?ps 1 1"
    by (simp add: valid_input_def are_coordinates_def are_rectangular_prisms_def)
  have l: "length [1000 :: real] = 1" "length [1 :: real] = 1" "length [2 :: real] = 1"
    "length [3 :: real] = 1"
    by simp_all
  have pos: "0 < GRAVITATIONAL_CONST ?cts" "0 < SI2MGAL ?cts" "0 < SI2EOTVOS ?cts"
    "0 < CM ?cts" "0 < T2NT ?cts" "0 < T2MT ?cts"
    by simp_all
  have f: "''x'' \<in> set [''x'', ''y'', ''z'']" "''x'' \<in> set grav_fields"
    by (simp_all add: grav_fields_def)
  have g: "grav_factor ?cts ''x'' = 2 * 3" "CM ?cts = 7" "T2NT ?cts = 11" "T2MT ?cts = 13"
    by (simp_all add: grav_factor_def)
  show ?thesis
    using f scaling_signs [OF v l pos, where field = "''x''"] unfolding g by blast
qed

end
